theory Spec2Isabelle
  imports
    Main
    "HOL-Library.Char_ord"
    "HOL-Library.List_Lexorder"
    "HOL-Library.Sublist"
    "HOL-Library.AList"
begin

section \<open>Python values\<close>

text \<open>
  The controller answers in JSON, and \<^verbatim>\<open>response.json()\<close> turns the answer into Python
  values: \<^verbatim>\<open>None\<close>, booleans, numbers, strings, lists and dictionaries. Nothing in the
  client checks the shape of a record's fields before using them, so a field of a remote
  record is a value of this type. A dictionary is the list of its items in insertion order,
  each key once, read with \<^const>\<open>map_of\<close> and written with \<^const>\<open>AList.update\<close>, which replaces the value
  of a key that is present and appends a new key at the end, as a Python \<^verbatim>\<open>dict\<close> does.

  A \<^verbatim>\<open>str\<close> is a \<^typ>\<open>string\<close>. The text the program handles (MAC addresses, device and
  network names) is modelled as ASCII: case mapping touches the letters a-z and A-Z only,
  and white space is the ASCII white space that \<^verbatim>\<open>str.strip\<close> removes. A number is an
  integer; a float takes the same branches everywhere (it is true unless zero, and it is
  no \<^verbatim>\<open>str\<close>).
\<close>

datatype json =
    JNull
  | JBool bool
  | JNum int
  | JStr string
  | JArr "json list"
  | JObj "(string \<times> json) list"

type_synonym py_dict = "(string \<times> json) list"

text \<open>An exception carries the text that \<^verbatim>\<open>str(exc)\<close> gives.\<close>

datatype error =
    AttributeError string
  | TypeError string
  | ValueError string
  | KeyError string
  | HTTPError string
  | RuntimeError string
  | SystemExit string

fun error_text :: "error \<Rightarrow> string" where
  "error_text (AttributeError m) = m"
| "error_text (TypeError m) = m"
| "error_text (ValueError m) = m"
| "error_text (KeyError m) = m"
| "error_text (HTTPError m) = m"
| "error_text (RuntimeError m) = m"
| "error_text (SystemExit m) = m"

text \<open>Truth value testing: \<^verbatim>\<open>bool(v)\<close>, as \<^verbatim>\<open>or\<close>, \<^verbatim>\<open>not\<close> and \<^verbatim>\<open>if\<close> apply it.\<close>

fun truthy :: "json \<Rightarrow> bool" where
  "truthy JNull = False"
| "truthy (JBool b) = b"
| "truthy (JNum n) = (n \<noteq> 0)"
| "truthy (JStr s) = (s \<noteq> [])"
| "truthy (JArr xs) = (xs \<noteq> [])"
| "truthy (JObj kvs) = (kvs \<noteq> [])"

definition py_or :: "json \<Rightarrow> json \<Rightarrow> json" where
  "py_or a b = (if truthy a then a else b)"

fun type_name :: "json \<Rightarrow> string" where
  "type_name JNull = ''NoneType''"
| "type_name (JBool b) = ''bool''"
| "type_name (JNum n) = ''int''"
| "type_name (JStr s) = ''str''"
| "type_name (JArr xs) = ''list''"
| "type_name (JObj kvs) = ''dict''"

text \<open>A name between apostrophes, as Python's messages quote it.\<close>

definition quoted :: "string \<Rightarrow> string" where
  "quoted s = [CHR 0x27] @ s @ [CHR 0x27]"

definition no_attribute :: "json \<Rightarrow> string \<Rightarrow> error" where
  "no_attribute v attr =
     AttributeError (quoted (type_name v) @ '' object has no attribute '' @ quoted attr)"

text \<open>\<^verbatim>\<open>d.get(k)\<close> and \<^verbatim>\<open>d.get(k, default)\<close>.\<close>

definition dict_get :: "py_dict \<Rightarrow> string \<Rightarrow> json" where
  "dict_get d k = (case map_of d k of None \<Rightarrow> JNull | Some v \<Rightarrow> v)"

definition dict_get_default :: "py_dict \<Rightarrow> string \<Rightarrow> json \<Rightarrow> json" where
  "dict_get_default d k dflt = (case map_of d k of None \<Rightarrow> dflt | Some v \<Rightarrow> v)"

subsection \<open>Strings\<close>

text \<open>The case mapping of \<^verbatim>\<open>str.upper\<close> and \<^verbatim>\<open>str.lower\<close> on ASCII: a table of the 26 letters.\<close>

definition lower_letters :: string where
  "lower_letters = ''abcdefghijklmnopqrstuvwxyz''"

definition upper_letters :: string where
  "upper_letters = ''ABCDEFGHIJKLMNOPQRSTUVWXYZ''"

definition upper_char :: "char \<Rightarrow> char" where
  "upper_char c =
     (case map_of (zip lower_letters upper_letters) c of None \<Rightarrow> c | Some u \<Rightarrow> u)"

definition lower_char :: "char \<Rightarrow> char" where
  "lower_char c =
     (case map_of (zip upper_letters lower_letters) c of None \<Rightarrow> c | Some l \<Rightarrow> l)"

definition upper :: "string \<Rightarrow> string" where
  "upper s = map upper_char s"

definition lower :: "string \<Rightarrow> string" where
  "lower s = map lower_char s"

text \<open>
  The characters \<^verbatim>\<open>str.isspace\<close> accepts below 128: tab, line feed, vertical tab, form
  feed, carriage return, the four separators 28 to 31, and the space.
\<close>

definition is_space :: "char \<Rightarrow> bool" where
  "is_space c =
     (let n = (of_char c :: nat) in (9 \<le> n \<and> n \<le> 13) \<or> (28 \<le> n \<and> n \<le> 32))"

definition strip :: "string \<Rightarrow> string" where
  "strip s = rev (dropWhile is_space (rev (dropWhile is_space s)))"

text \<open>\<^verbatim>\<open>v.upper()\<close> and \<^verbatim>\<open>v.lower()\<close> on a value that may not be a \<^verbatim>\<open>str\<close>.\<close>

definition attr_upper :: "json \<Rightarrow> error + string" where
  "attr_upper v = (case v of JStr s \<Rightarrow> Inr (upper s) | _ \<Rightarrow> Inl (no_attribute v ''upper''))"

definition attr_lower :: "json \<Rightarrow> error + string" where
  "attr_lower v = (case v of JStr s \<Rightarrow> Inr (lower s) | _ \<Rightarrow> Inl (no_attribute v ''lower''))"

text \<open>
  \<^verbatim>\<open>needle in haystack\<close> on two strings: the needle occurs at some position of the
  haystack. The empty needle occurs everywhere, also in the empty haystack.
\<close>

fun py_in :: "string \<Rightarrow> string \<Rightarrow> bool" where
  "py_in needle [] = (needle = [])"
| "py_in needle (c # cs) = (take (length needle) (c # cs) = needle \<or> py_in needle cs)"

text \<open>\<^verbatim>\<open>sep.join(xs)\<close>.\<close>

fun join :: "string \<Rightarrow> string list \<Rightarrow> string" where
  "join sep [] = []"
| "join sep [x] = x"
| "join sep (x # y # ys) = x @ sep @ join sep (y # ys)"

section \<open>The labeler (client.py)\<close>

text \<open>
  \<^verbatim>\<open>
  def label_mac_addresses(macs, known_devices):
      labelled = []
      for mac in macs:
          normalised = mac.upper()
          label = known_devices.get(normalised, "Unknown")
          labelled.append((normalised, label))
      return labelled
  \<close>
  The filter list comes from the controller's answer unchecked, so an element that is not a
  \<^verbatim>\<open>str\<close> makes \<^verbatim>\<open>mac.upper()\<close> raise, at the first such element.
\<close>

fun label_mac_addresses ::
  "json list \<Rightarrow> (string \<times> string) list \<Rightarrow> error + (string \<times> string) list" where
  "label_mac_addresses [] known_devices = Inr []"
| "label_mac_addresses (mac # macs) known_devices =
     (case attr_upper mac of
        Inl e \<Rightarrow> Inl e
      | Inr normalised \<Rightarrow>
          (case label_mac_addresses macs known_devices of
             Inl e \<Rightarrow> Inl e
           | Inr labelled \<Rightarrow>
               Inr ((normalised,
                     (case map_of known_devices normalised of
                        None \<Rightarrow> ''Unknown''
                      | Some label \<Rightarrow> label)) # labelled)))"

section \<open>The search filter of the table (gui.py)\<close>

text \<open>
  \<^verbatim>\<open>
  def filter_entries(entries, term):
      if not term:
          return list(entries)
      needle = term.lower()
      filtered = []
      for mac, name in entries:
          if needle in mac.lower() or needle in name.lower():
              filtered.append((mac, name))
      return filtered
  \<close>
\<close>

fun filter_entries_loop :: "string \<Rightarrow> (string \<times> string) list \<Rightarrow> (string \<times> string) list" where
  "filter_entries_loop needle [] = []"
| "filter_entries_loop needle ((mac, name) # entries) =
     (if py_in needle (lower mac) \<or> py_in needle (lower name)
      then (mac, name) # filter_entries_loop needle entries
      else filter_entries_loop needle entries)"

definition filter_entries :: "(string \<times> string) list \<Rightarrow> string \<Rightarrow> (string \<times> string) list" where
  "filter_entries entries term =
     (if term = [] then entries else filter_entries_loop (lower term) entries)"

section \<open>The controller client (client.py)\<close>

text \<open>
  The HTTP layer is not part of the model. A controller is what it answers to each request
  of the client: to \<^verbatim>\<open>POST /api/login\<close> either nothing or the text of the exception that
  \<^verbatim>\<open>requests\<close> raises (a refused login, a time-out); to each \<^verbatim>\<open>GET\<close> either such a text
  or the list found under \<^verbatim>\<open>data\<close> in the JSON answer, a list of records. The site code
  the client puts into the URL of a request is the argument of the answer.
\<close>

record controller =
  login_answer :: "string \<Rightarrow> string \<Rightarrow> string option"
  sites_answer :: "string + py_dict list"
  wlanconf_answer :: "string \<Rightarrow> string + py_dict list"
  alluser_answer :: "string \<Rightarrow> string + py_dict list"

definition login :: "controller \<Rightarrow> string \<Rightarrow> string \<Rightarrow> error option" where
  "login ctl username password = map_option HTTPError (login_answer ctl username password)"

text \<open>
  The two data classes. Python does not check the annotations of a data class, so
  \<^verbatim>\<open>Site.code\<close> and the elements of \<^verbatim>\<open>WlanProfile.mac_filter_list\<close> are whatever
  the controller sent. The sort key of \<^verbatim>\<open>fetch_sites\<close> calls \<^verbatim>\<open>.lower()\<close> on every
  description, and that of \<^verbatim>\<open>fetch_wlans\<close> on every name, also when the list has one
  element only: a description or a name that is not a \<^verbatim>\<open>str\<close> makes the method raise
  instead of returning, so in a \<^verbatim>\<open>Site\<close> or a \<^verbatim>\<open>WlanProfile\<close> that is returned
  these two fields are strings.
\<close>

record Site =
  code :: json
  description :: string

record WlanProfile =
  name :: string
  mac_filter_list :: "json list"

text \<open>
  \<^verbatim>\<open>
  data = response.json().get("data", [])
  sites = [
      Site(code=item.get("name", ""), description=item.get("desc") or item.get("name", ""))
      for item in data
  ]
  sites.sort(key=lambda s: s.description.lower())
  return sites
  \<close>
\<close>

definition site_fields :: "py_dict \<Rightarrow> json \<times> json" where
  "site_fields item =
     (dict_get_default item ''name'' (JStr []),
      py_or (dict_get item ''desc'') (dict_get_default item ''name'' (JStr [])))"

fun site_keys :: "(json \<times> json) list \<Rightarrow> error + Site list" where
  "site_keys [] = Inr []"
| "site_keys ((c, JStr d) # rest) =
     (case site_keys rest of
        Inl e \<Rightarrow> Inl e
      | Inr sites \<Rightarrow> Inr (\<lparr>code = c, description = d\<rparr> # sites))"
| "site_keys ((c, d) # rest) = Inl (no_attribute d ''lower'')"

definition fetch_sites :: "controller \<Rightarrow> error + Site list" where
  "fetch_sites ctl =
     (case sites_answer ctl of
        Inl msg \<Rightarrow> Inl (HTTPError msg)
      | Inr data \<Rightarrow>
          (case site_keys (map site_fields data) of
             Inl e \<Rightarrow> Inl e
           | Inr sites \<Rightarrow> Inr (sort_key (\<lambda>s. lower (description s)) sites)))"

text \<open>
  \<^verbatim>\<open>
  wlans = []
  for item in response.json().get("data", []):
      macs = item.get("mac_filter_list") or []
      wlans.append(WlanProfile(name=item.get("name", ""), mac_filter_list=list(macs)))
  wlans.sort(key=lambda w: w.name.lower())
  return wlans
  \<close>
  \<^verbatim>\<open>list(macs)\<close> copies a list, splits a string into its characters, lists the keys of a
  dictionary and raises on a number or on \<^verbatim>\<open>True\<close>.
\<close>

definition py_list :: "json \<Rightarrow> error + json list" where
  "py_list v =
     (case v of
        JArr xs \<Rightarrow> Inr xs
      | JStr s \<Rightarrow> Inr (map (\<lambda>c. JStr [c]) s)
      | JObj kvs \<Rightarrow> Inr (map (\<lambda>kv. JStr (fst kv)) kvs)
      | _ \<Rightarrow> Inl (TypeError (quoted (type_name v) @ '' object is not iterable'')))"

fun wlan_fields :: "py_dict list \<Rightarrow> error + (json \<times> json list) list" where
  "wlan_fields [] = Inr []"
| "wlan_fields (item # items) =
     (case py_list (py_or (dict_get item ''mac_filter_list'') (JArr [])) of
        Inl e \<Rightarrow> Inl e
      | Inr macs \<Rightarrow>
          (case wlan_fields items of
             Inl e \<Rightarrow> Inl e
           | Inr wlans \<Rightarrow> Inr ((dict_get_default item ''name'' (JStr []), macs) # wlans)))"

fun wlan_keys :: "(json \<times> json list) list \<Rightarrow> error + WlanProfile list" where
  "wlan_keys [] = Inr []"
| "wlan_keys ((JStr n, macs) # rest) =
     (case wlan_keys rest of
        Inl e \<Rightarrow> Inl e
      | Inr wlans \<Rightarrow> Inr (\<lparr>name = n, mac_filter_list = macs\<rparr> # wlans))"
| "wlan_keys ((n, macs) # rest) = Inl (no_attribute n ''lower'')"

definition wlans_of_data :: "py_dict list \<Rightarrow> error + WlanProfile list" where
  "wlans_of_data data =
     (case wlan_fields data of
        Inl e \<Rightarrow> Inl e
      | Inr raw \<Rightarrow>
          (case wlan_keys raw of
             Inl e \<Rightarrow> Inl e
           | Inr wlans \<Rightarrow> Inr (sort_key (\<lambda>w. lower (name w)) wlans)))"

definition fetch_wlans :: "controller \<Rightarrow> string \<Rightarrow> error + WlanProfile list" where
  "fetch_wlans ctl site_code =
     (case wlanconf_answer ctl site_code of
        Inl msg \<Rightarrow> Inl (HTTPError msg)
      | Inr data \<Rightarrow> wlans_of_data data)"

text \<open>
  \<^verbatim>\<open>
  def _pick_name(device):
      for key in ("name", "hostname", "usergroup_name", "oui"):
          value = device.get(key)
          if isinstance(value, str) and value.strip():
              return value.strip()
      return None
  \<close>
\<close>

definition name_keys :: "string list" where
  "name_keys = [''name'', ''hostname'', ''usergroup_name'', ''oui'']"

fun pick_name_loop :: "py_dict \<Rightarrow> string list \<Rightarrow> string option" where
  "pick_name_loop device [] = None"
| "pick_name_loop device (key # keys) =
     (case dict_get device key of
        JStr v \<Rightarrow> if strip v \<noteq> [] then Some (strip v) else pick_name_loop device keys
      | _ \<Rightarrow> pick_name_loop device keys)"

definition pick_name :: "py_dict \<Rightarrow> string option" where
  "pick_name device = pick_name_loop device name_keys"

text \<open>
  \<^verbatim>\<open>
  devices = response.json().get("data", [])
  mapping = {}
  for device in devices:
      mac = (device.get("mac") or "").upper()
      if not mac:
          continue
      name = _pick_name(device)
      if name:
          mapping[mac] = name
  return mapping
  \<close>
\<close>

fun known_devices_loop ::
  "py_dict list \<Rightarrow> (string \<times> string) list \<Rightarrow> error + (string \<times> string) list" where
  "known_devices_loop [] mapping = Inr mapping"
| "known_devices_loop (device # devices) mapping =
     (case attr_upper (py_or (dict_get device ''mac'') (JStr [])) of
        Inl e \<Rightarrow> Inl e
      | Inr mac \<Rightarrow>
          if mac = [] then known_devices_loop devices mapping
          else (case pick_name device of
                  None \<Rightarrow> known_devices_loop devices mapping
                | Some n \<Rightarrow>
                    if n \<noteq> [] then known_devices_loop devices (AList.update mac n mapping)
                    else known_devices_loop devices mapping))"

definition fetch_known_devices :: "controller \<Rightarrow> string \<Rightarrow> error + (string \<times> string) list" where
  "fetch_known_devices ctl site_code =
     (case alluser_answer ctl site_code of
        Inl msg \<Rightarrow> Inl (HTTPError msg)
      | Inr devices \<Rightarrow> known_devices_loop devices [])"

text \<open>
  \<^verbatim>\<open>
  wlans = self.fetch_wlans(site_code)
  lookup = {wlan.name: wlan for wlan in wlans}
  if wlan_name not in lookup:
      available = ", ".join(sorted(lookup))
      raise ValueError(f"WLAN '{wlan_name}' not found. Available: {available}")
  known_devices = self.fetch_known_devices(site_code)
  return lookup[wlan_name], known_devices
  \<close>
\<close>

definition wlan_lookup :: "WlanProfile list \<Rightarrow> (string \<times> WlanProfile) list" where
  "wlan_lookup wlans = fold (\<lambda>wlan lookup. AList.update (name wlan) wlan lookup) wlans []"

definition fetch_mac_filter_details ::
  "controller \<Rightarrow> string \<Rightarrow> string \<Rightarrow> error + (WlanProfile \<times> (string \<times> string) list)" where
  "fetch_mac_filter_details ctl site_code wlan_name =
     (case fetch_wlans ctl site_code of
        Inl e \<Rightarrow> Inl e
      | Inr wlans \<Rightarrow>
          (case map_of (wlan_lookup wlans) wlan_name of
             None \<Rightarrow>
               Inl (ValueError (''WLAN '' @ quoted wlan_name @ '' not found. Available: ''
                                @ join '', '' (sort (map fst (wlan_lookup wlans)))))
           | Some wlan \<Rightarrow>
               (case fetch_known_devices ctl site_code of
                  Inl e \<Rightarrow> Inl e
                | Inr known_devices \<Rightarrow> Inr (wlan, known_devices))))"

section \<open>The command line (cli.py)\<close>

text \<open>
  The parsed arguments. An option that was not given is the empty string: the program
  tests \<^verbatim>\<open>url\<close>, \<^verbatim>\<open>user\<close>, \<^verbatim>\<open>site\<close>, \<^verbatim>\<open>wlan\<close>, \<^verbatim>\<open>password\<close> and \<^verbatim>\<open>out\<close> for truth
  only, and \<^verbatim>\<open>None\<close> and the empty string are both false. \<^verbatim>\<open>verify_ssl\<close> and
  \<^verbatim>\<open>timeout\<close> go to the HTTP layer.
\<close>

record cli_args =
  url :: string
  user :: string
  password :: string
  site :: string
  wlan :: string
  out :: string
  format :: string

text \<open>
  What the program reads from its surroundings: the password typed at the prompt of
  \<^verbatim>\<open>getpass\<close>, and whether \<^verbatim>\<open>import pandas\<close> succeeds. Writing a file is taken to
  succeed.
\<close>

record cli_env =
  getpass :: string
  pandas :: bool

text \<open>
  \<^verbatim>\<open>
  def ensure_cli_args(args):
      missing = [flag for flag in ("url", "user", "site", "wlan") if not getattr(args, flag)]
      if missing:
          msg = ", ".join(f"--{flag}" for flag in missing)
          raise SystemExit(f"Missing required arguments: {msg}")
  \<close>
\<close>

definition ensure_cli_args :: "cli_args \<Rightarrow> error option" where
  "ensure_cli_args args =
     (let missing =
            map fst (filter (\<lambda>flag. snd flag = [])
              [(''url'', url args), (''user'', user args), (''site'', site args), (''wlan'', wlan args)])
      in if missing \<noteq> []
         then Some (SystemExit (''Missing required arguments: ''
                                @ join '', '' (map (\<lambda>flag. ''--'' @ flag) missing)))
         else None)"

definition prompt_password :: "cli_env \<Rightarrow> cli_args \<Rightarrow> cli_args" where
  "prompt_password env args =
     (if password args = [] then args\<lparr>password := getpass env\<rparr> else args)"

text \<open>
  \<^verbatim>\<open>
  def print_table(entries):
      if not entries:
          print("No MAC addresses found.")
          return
      mac_width = max(len(mac) for mac, _ in entries)
      name_width = max(len(name) for _, name in entries)
      header = f"{'MAC'.ljust(mac_width)}  {'Name'.ljust(name_width)}"
      divider = f"{'-' * mac_width}  {'-' * name_width}"
      print(header)
      print(divider)
      for mac, name in entries:
          print(f"{mac.ljust(mac_width)}  {name.ljust(name_width)}")
  \<close>
  The result is the list of the lines printed.
\<close>

definition ljust :: "string \<Rightarrow> nat \<Rightarrow> string" where
  "ljust s width = s @ replicate (width - length s) CHR '' ''"

definition print_table :: "(string \<times> string) list \<Rightarrow> string list" where
  "print_table entries =
     (if entries = [] then [''No MAC addresses found.'']
      else
        (let mac_width = fold max (map (\<lambda>e. length (fst e)) entries) 0;
             name_width = fold max (map (\<lambda>e. length (snd e)) entries) 0
         in [ljust ''MAC'' mac_width @ ''  '' @ ljust ''Name'' name_width,
             replicate mac_width CHR ''-'' @ ''  '' @ replicate name_width CHR ''-'']
            @ map (\<lambda>e. ljust (fst e) mac_width @ ''  '' @ ljust (snd e) name_width) entries))"

text \<open>
  \<^verbatim>\<open>
  def export_results(entries, outfile, fmt):
      fmt = fmt.lower()
      entries = list(entries)
      if fmt == "txt":
          lines = [f"{mac}\t{name}" for mac, name in entries]
          Path(outfile).write_text("\n".join(lines), encoding="utf-8")
      elif fmt == "csv":
          ...
              writer.writerow(["MAC", "Name"])
              writer.writerows(entries)
      elif fmt == "xlsx":
          try:
              import pandas as pd
          except ImportError as exc:
              raise RuntimeError("pandas and openpyxl are required ...") from exc
          data = {"MAC": [mac for mac, _ in entries], "Name": [name for _, name in entries]}
          df = pd.DataFrame(data)
          df.to_excel(outfile, index=False)
      else:
          raise ValueError(f"Unsupported export format: {fmt}")
  \<close>
  The result is the file written: its name and what was handed to the writer (the text,
  the rows of the CSV writer, the columns of the data frame).
\<close>

datatype file_content =
    Text string
  | CsvRows "string list list"
  | Sheet "(string \<times> string list) list"

definition export_results ::
  "bool \<Rightarrow> (string \<times> string) list \<Rightarrow> string \<Rightarrow> string \<Rightarrow> error + (string \<times> file_content)" where
  "export_results has_pandas entries outfile fmt =
     (if lower fmt = ''txt'' then
        Inr (outfile, Text (join [CHR 0x0A] (map (\<lambda>e. fst e @ [CHR 0x09] @ snd e) entries)))
      else if lower fmt = ''csv'' then
        Inr (outfile, CsvRows ([''MAC'', ''Name''] # map (\<lambda>e. [fst e, snd e]) entries))
      else if lower fmt = ''xlsx'' then
        (if has_pandas
         then Inr (outfile, Sheet [(''MAC'', map fst entries), (''Name'', map snd entries)])
         else Inl (RuntimeError
                (''pandas and openpyxl are required for XLSX export. Install them via ''
                 @ quoted ''pip install pandas openpyxl'' @ ''.'')))
      else Inl (ValueError (''Unsupported export format: '' @ lower fmt)))"

text \<open>The decimal digits of a number, as an f-string formats \<^verbatim>\<open>len(labelled)\<close>.\<close>

fun show_nat :: "nat \<Rightarrow> string" where
  "show_nat n =
     (if n < 10 then [''0123456789'' ! n]
      else show_nat (n div 10) @ [''0123456789'' ! (n mod 10)])"

declare show_nat.simps [simp del]

text \<open>
  \<^verbatim>\<open>
  def run_cli(argv):
      parser = build_parser()
      args = parser.parse_args(argv)
      ensure_cli_args(args)
      prompt_password(args)
      client = UniFiClient(args.url, verify_ssl=args.verify_ssl, timeout=args.timeout)
      try:
          client.login(args.user, args.password)
          wlan, known_devices = client.fetch_mac_filter_details(args.site, args.wlan)
      except Exception as exc:
          print(f"Error: {exc}")
          LOGGER.exception("CLI execution failed")
          return 1
      labelled = label_mac_addresses(wlan.mac_filter_list, known_devices)
      if args.out:
          export_results(labelled, args.out, args.format)
          print(f"Exported {len(labelled)} entries to {args.out} ({args.format}).")
      else:
          print_table(labelled)
      return 0
  \<close>
  The model starts from the parsed arguments, and the controller is the one found at
  \<^verbatim>\<open>args.url\<close>. An exception raised outside the \<^verbatim>\<open>try\<close> leaves \<^verbatim>\<open>run_cli\<close>.
\<close>

record cli_result =
  exit_code :: int
  stdout :: "string list"
  exported :: "(string \<times> file_content) option"

definition run_cli :: "controller \<Rightarrow> cli_env \<Rightarrow> cli_args \<Rightarrow> error + cli_result" where
  "run_cli ctl env argv =
     (case ensure_cli_args argv of
        Some e \<Rightarrow> Inl e
      | None \<Rightarrow>
          (let args = prompt_password env argv in
           (case (case login ctl (user args) (password args) of
                    Some e \<Rightarrow> Inl e
                  | None \<Rightarrow> fetch_mac_filter_details ctl (site args) (wlan args)) of
              Inl exc \<Rightarrow>
                Inr \<lparr>exit_code = 1, stdout = [''Error: '' @ error_text exc], exported = None\<rparr>
            | Inr (profile, known_devices) \<Rightarrow>
                (case label_mac_addresses (mac_filter_list profile) known_devices of
                   Inl e \<Rightarrow> Inl e
                 | Inr labelled \<Rightarrow>
                     if out args \<noteq> [] then
                       (case export_results (pandas env) labelled (out args) (format args) of
                          Inl e \<Rightarrow> Inl e
                        | Inr file \<Rightarrow>
                            Inr \<lparr>exit_code = 0,
                                 stdout = [''Exported '' @ show_nat (length labelled)
                                           @ '' entries to '' @ out args
                                           @ '' ('' @ format args @ '').''],
                                 exported = Some file\<rparr>)
                     else Inr \<lparr>exit_code = 0, stdout = print_table labelled,
                               exported = None\<rparr>))))"

section \<open>The earlier script (docs/oldscript.py)\<close>

text \<open>
  \<^verbatim>\<open>
  def resolve_site_code(session, url, site_hint):
      resp = session.get(f"{url}/api/self/sites", verify=False, timeout=10)
      resp.raise_for_status()
      for site in resp.json()["data"]:
          if site_hint.lower() in {site["desc"].lower(), site["name"].lower()}:
              return site["name"]
      raise ValueError(
          f"Site '{site_hint}' not found. Available: "
          f"{[s['desc'] for s in resp.json()['data']]}"
      )
  \<close>
  The f-string formats the list of the descriptions with \<^verbatim>\<open>repr\<close>. \<^verbatim>\<open>repr\<close> of a
  \<^verbatim>\<open>str\<close> puts it between apostrophes, or between double quotes when it holds an
  apostrophe and no double quote, and escapes the backslash, the quote in use and the
  control characters.
\<close>

definition hex_digit :: "nat \<Rightarrow> char" where
  "hex_digit n = ''0123456789abcdef'' ! (n mod 16)"

definition repr_char :: "char \<Rightarrow> char \<Rightarrow> string" where
  "repr_char q c =
     (if c = q \<or> c = CHR 0x5C then [CHR 0x5C, c]
      else if c = CHR 0x09 then [CHR 0x5C, CHR ''t'']
      else if c = CHR 0x0A then [CHR 0x5C, CHR ''n'']
      else if c = CHR 0x0D then [CHR 0x5C, CHR ''r'']
      else if (of_char c :: nat) < 32 \<or> (of_char c :: nat) = 127
        then [CHR 0x5C, CHR ''x'', hex_digit (of_char c div 16), hex_digit (of_char c)]
      else [c])"

definition repr_str :: "string \<Rightarrow> string" where
  "repr_str s =
     (let q = (if CHR 0x27 \<in> set s \<and> CHR 0x22 \<notin> set s then CHR 0x22 else CHR 0x27)
      in [q] @ concat (map (repr_char q) s) @ [q])"

fun py_repr :: "json \<Rightarrow> string" where
  "py_repr JNull = ''None''"
| "py_repr (JBool b) = (if b then ''True'' else ''False'')"
| "py_repr (JNum n) = (if n < 0 then ''-'' @ show_nat (nat (- n)) else show_nat (nat n))"
| "py_repr (JStr s) = repr_str s"
| "py_repr (JArr xs) = ''['' @ join '', '' (map py_repr xs) @ '']''"
| "py_repr (JObj kvs) =
     ''{'' @ join '', '' (map (\<lambda>kv. repr_str (fst kv) @ '': '' @ py_repr (snd kv)) kvs) @ ''}''"

definition subscript :: "py_dict \<Rightarrow> string \<Rightarrow> error + json" where
  "subscript d k = (case map_of d k of None \<Rightarrow> Inl (KeyError (repr_str k)) | Some v \<Rightarrow> Inr v)"

fun resolve_site_code_loop :: "string \<Rightarrow> py_dict list \<Rightarrow> error + string option" where
  "resolve_site_code_loop site_hint [] = Inr None"
| "resolve_site_code_loop site_hint (s # rest) =
     (case subscript s ''desc'' of
        Inl e \<Rightarrow> Inl e
      | Inr (JStr d) \<Rightarrow>
          (case subscript s ''name'' of
             Inl e \<Rightarrow> Inl e
           | Inr (JStr n) \<Rightarrow>
               if lower site_hint = lower d \<or> lower site_hint = lower n then Inr (Some n)
               else resolve_site_code_loop site_hint rest
           | Inr v \<Rightarrow> Inl (no_attribute v ''lower''))
      | Inr v \<Rightarrow> Inl (no_attribute v ''lower''))"

fun descriptions :: "py_dict list \<Rightarrow> error + json list" where
  "descriptions [] = Inr []"
| "descriptions (s # rest) =
     (case subscript s ''desc'' of
        Inl e \<Rightarrow> Inl e
      | Inr d \<Rightarrow> (case descriptions rest of Inl e \<Rightarrow> Inl e | Inr ds \<Rightarrow> Inr (d # ds)))"

definition resolve_site_code :: "controller \<Rightarrow> string \<Rightarrow> error + string" where
  "resolve_site_code ctl site_hint =
     (case sites_answer ctl of
        Inl msg \<Rightarrow> Inl (HTTPError msg)
      | Inr data \<Rightarrow>
          (case resolve_site_code_loop site_hint data of
             Inl e \<Rightarrow> Inl e
           | Inr (Some c) \<Rightarrow> Inr c
           | Inr None \<Rightarrow>
               (case descriptions data of
                  Inl e \<Rightarrow> Inl e
                | Inr ds \<Rightarrow>
                    Inl (ValueError (''Site '' @ quoted site_hint @ '' not found. Available: ''
                                     @ py_repr (JArr ds))))))"

section \<open>A sample installation\<close>

text \<open>
  A controller with three sites, of which it serves the one with the code \<open>default\<close> and
  refuses every other site code; three WLAN profiles, of which one has two filtered
  addresses, one has no \<^verbatim>\<open>mac_filter_list\<close> field and one has \<^verbatim>\<open>null\<close> there; and a
  roster of four devices, of which one has an empty MAC, one has none and one has no usable
  name. The theorems below are tried on it.
\<close>

definition demo_sites :: "py_dict list" where
  "demo_sites =
     [[(''name'', JStr ''default''), (''desc'', JStr ''Default'')],
      [(''name'', JStr ''lab'')],
      [(''name'', JStr ''k3x9p''), (''desc'', JStr ''Branch Office'')]]"

definition demo_wlans :: "py_dict list" where
  "demo_wlans =
     [[(''name'', JStr ''Home''),
       (''mac_filter_list'', JArr [JStr ''aa:bb:cc:dd:ee:ff'', JStr ''11:22:33:44:55:66''])],
      [(''name'', JStr ''guest'')],
      [(''name'', JStr ''IoT''), (''mac_filter_list'', JNull)]]"

definition demo_devices :: "py_dict list" where
  "demo_devices =
     [[(''mac'', JStr ''aa:bb:cc:dd:ee:ff''), (''hostname'', JStr ''host1''), (''oui'', JStr ''Vendor'')],
      [(''mac'', JStr []), (''name'', JStr ''ghost'')],
      [(''name'', JStr ''nomac'')],
      [(''mac'', JStr ''11:22:33:44:55:66''), (''name'', JStr ''   ''), (''hostname'', JNum 7)]]"

definition demo_controller :: controller where
  "demo_controller =
     \<lparr>login_answer =
        (\<lambda>username pw. if username = ''admin'' \<and> pw = ''secret'' then None
                        else Some ''401 Client Error: Unauthorized''),
      sites_answer = Inr demo_sites,
      wlanconf_answer =
        (\<lambda>site_code. if site_code = ''default'' then Inr demo_wlans
                      else Inl ''404 Client Error: Not Found''),
      alluser_answer =
        (\<lambda>site_code. if site_code = ''default'' then Inr demo_devices
                      else Inl ''404 Client Error: Not Found'')\<rparr>"

definition demo_env :: cli_env where
  "demo_env = \<lparr>getpass = ''secret'', pandas = False\<rparr>"

definition demo_args :: cli_args where
  "demo_args =
     \<lparr>url = ''https://192.0.2.1:8443'', user = ''admin'', password = [],
      site = ''default'', wlan = ''Home'', out = [], format = ''txt''\<rparr>"

section \<open>Evaluation\<close>

text \<open>The defining equations that unfold the model on a concrete input.\<close>

lemmas py_eval =
  upper_def upper_char_def lower_def lower_char_def lower_letters_def upper_letters_def
  strip_def is_space_def attr_upper_def attr_lower_def dict_get_def dict_get_default_def
  py_or_def py_list_def quoted_def no_attribute_def name_keys_def pick_name_def

lemmas client_eval =
  login_def fetch_sites_def wlans_of_data_def fetch_wlans_def fetch_known_devices_def
  wlan_lookup_def fetch_mac_filter_details_def

lemmas cli_eval =
  ensure_cli_args_def prompt_password_def ljust_def print_table_def export_results_def
  run_cli_def

lemmas demo_eval =
  demo_sites_def demo_wlans_def demo_devices_def demo_controller_def demo_env_def demo_args_def

section \<open>Strings\<close>

lemma upper_Nil_iff: "upper s = [] \<longleftrightarrow> s = []"
  by (simp add: upper_def)

lemma take_eq_iff_prefix: "take (length n) h = n \<longleftrightarrow> (\<exists>s. h = n @ s)"
  by (metis append_eq_conv_conj append_take_drop_id)

text \<open>\<^const>\<open>py_in\<close> finds the needle exactly when the haystack splits around it.\<close>

lemma py_in_iff: "py_in n h \<longleftrightarrow> (\<exists>p s. h = p @ n @ s)"
proof (induction h)
  case Nil
  show ?case by auto
next
  case (Cons c cs)
  have "(\<exists>p s. c # cs = p @ n @ s) \<longleftrightarrow> (\<exists>s. c # cs = n @ s) \<or> (\<exists>p s. cs = p @ n @ s)"
  proof
    assume "\<exists>p s. c # cs = p @ n @ s"
    then obtain p s where ps: "c # cs = p @ n @ s" by blast
    show "(\<exists>s. c # cs = n @ s) \<or> (\<exists>p s. cs = p @ n @ s)"
    proof (cases p)
      case Nil
      with ps show ?thesis by auto
    next
      case (Cons a p')
      with ps have "cs = p' @ n @ s" by simp
      then show ?thesis by blast
    qed
  next
    assume "(\<exists>s. c # cs = n @ s) \<or> (\<exists>p s. cs = p @ n @ s)"
    then show "\<exists>p s. c # cs = p @ n @ s"
    proof
      assume "\<exists>s. c # cs = n @ s"
      then obtain s where "c # cs = [] @ n @ s" by auto
      then show ?thesis by blast
    next
      assume "\<exists>p s. cs = p @ n @ s"
      then obtain p s where "c # cs = (c # p) @ n @ s" by auto
      then show ?thesis by blast
    qed
  qed
  with Cons show ?case
    by (simp only: py_in.simps take_eq_iff_prefix)
qed

section \<open>The labeler\<close>

text \<open>On a list of strings the labeler never raises, and it is a map over the list.\<close>

lemma label_mac_addresses_strs:
  "label_mac_addresses (map JStr M) K =
     Inr (map (\<lambda>m. (upper m, (case map_of K (upper m) of None \<Rightarrow> ''Unknown'' | Some l \<Rightarrow> l))) M)"
  by (induction M) (simp_all add: attr_upper_def)

text \<open>
  Claim C1. For every list \<open>M\<close> of MAC strings and every mapping \<open>K\<close>,
  \<^const>\<open>label_mac_addresses\<close> returns a list as long as \<open>M\<close> whose entry at each index \<open>i\<close>
  has as its MAC the upper-case form of the element of \<open>M\<close> at \<open>i\<close>: nothing is filtered out,
  merged or moved.
\<close>

theorem label_mac_addresses_order:
  "\<exists>r. label_mac_addresses (map JStr M) K = Inr r \<and> length r = length M \<and>
       (\<forall>i<length M. fst (r ! i) = upper (M ! i))"
  by (simp add: label_mac_addresses_strs)

theorem label_mac_addresses_order_witness:
  "\<exists>r. label_mac_addresses (map JStr [''aa:bb'', ''cc:dd'', ''aa:bb'']) [(''AA:BB'', ''Laptop'')] = Inr r
       \<and> length r = 3
       \<and> fst (r ! 0) = ''AA:BB'' \<and> fst (r ! 1) = ''CC:DD'' \<and> fst (r ! 2) = ''AA:BB''"
proof -
  from label_mac_addresses_order[of "[''aa:bb'', ''cc:dd'', ''aa:bb'']" "[(''AA:BB'', ''Laptop'')]"]
  obtain r where r: "label_mac_addresses (map JStr [''aa:bb'', ''cc:dd'', ''aa:bb''])
                       [(''AA:BB'', ''Laptop'')] = Inr r"
      "length r = 3"
      "\<forall>i<3. fst (r ! i) = upper ([''aa:bb'', ''cc:dd'', ''aa:bb''] ! i)"
    by auto
  from r(3) have "fst (r ! 0) = upper ''aa:bb''" "fst (r ! 1) = upper ''cc:dd''"
      "fst (r ! 2) = upper ''aa:bb''"
    by (simp_all add: numeral_eq_Suc)
  then have "fst (r ! 0) = ''AA:BB'' \<and> fst (r ! 1) = ''CC:DD'' \<and> fst (r ! 2) = ''AA:BB''"
    by (simp add: py_eval)
  with r(1,2) show ?thesis by blast
qed

text \<open>
  Claim C2, as the claim states it, fails: the label is the value the mapping holds, and a
  mapping that holds an empty name gives an empty label.
\<close>

theorem label_mac_addresses_empty_label:
  "label_mac_addresses [JStr ''aa''] [(''AA'', [])] = Inr [(''AA'', [])]"
  by (simp add: py_eval)

text \<open>Every name that \<^const>\<open>fetch_known_devices\<close> stores is non-empty.\<close>

lemma pick_name_loop_nonempty: "pick_name_loop d ks = Some n \<Longrightarrow> n \<noteq> []"
  by (induction ks) (auto split: json.splits if_splits)

lemma update_set_subset: "set (AList.update k v al) \<subseteq> insert (k, v) (set al)"
  by (induction al) auto

lemma known_devices_loop_names:
  "known_devices_loop ds m = Inr r \<Longrightarrow> [] \<notin> snd ` set m \<Longrightarrow> [] \<notin> snd ` set r"
proof (induction ds arbitrary: m)
  case Nil
  then show ?case by simp
next
  case (Cons d ds)
  show ?case
  proof (cases "attr_upper (py_or (dict_get d ''mac'') (JStr []))")
    case (Inl e)
    with Cons.prems show ?thesis by simp
  next
    case (Inr mac)
    show ?thesis
    proof (cases "mac \<noteq> [] \<and> (\<exists>n. pick_name d = Some n \<and> n \<noteq> [])")
      case False
      with Inr Cons.prems have "known_devices_loop ds m = Inr r"
        by (auto split: option.splits if_splits)
      from Cons.IH[OF this Cons.prems(2)] show ?thesis .
    next
      case True
      then obtain n where n: "pick_name d = Some n" "n \<noteq> []" and mac: "mac \<noteq> []" by blast
      from Inr n mac Cons.prems have run: "known_devices_loop ds (AList.update mac n m) = Inr r"
        by simp
      have "[] \<notin> snd ` set (AList.update mac n m)"
        using update_set_subset[of mac n m] Cons.prems(2) n(2) by force
      from Cons.IH[OF run this] show ?thesis .
    qed
  qed
qed

lemma fetch_known_devices_names:
  "fetch_known_devices ctl sc = Inr K \<Longrightarrow> [] \<notin> snd ` set K"
  by (auto simp: fetch_known_devices_def split: sum.splits dest: known_devices_loop_names)

text \<open>
  Claim C2, amended. For every list \<open>M\<close> of MAC strings, every mapping \<open>K\<close> and every index
  \<open>i\<close>, the label at \<open>i\<close> is the value of \<open>K\<close> at the upper-case form of the element of \<open>M\<close>
  at \<open>i\<close> when \<open>K\<close> has that key, and the string \<open>Unknown\<close> otherwise; no case raises. The
  label is non-empty whenever \<open>K\<close> holds no empty name, and no mapping returned by
  \<^const>\<open>fetch_known_devices\<close> holds one.
\<close>

theorem label_mac_addresses_labels:
  "\<exists>r. label_mac_addresses (map JStr M) K = Inr r \<and> length r = length M \<and>
       (\<forall>i<length M.
           snd (r ! i) = (case map_of K (upper (M ! i)) of None \<Rightarrow> ''Unknown'' | Some l \<Rightarrow> l)
         \<and> ([] \<notin> snd ` set K \<longrightarrow> snd (r ! i) \<noteq> []))
     \<and> (\<forall>ctl sc. fetch_known_devices ctl sc = Inr K \<longrightarrow> [] \<notin> snd ` set K)"
proof -
  let ?label = "\<lambda>m. (case map_of K (upper m) of None \<Rightarrow> ''Unknown'' | Some l \<Rightarrow> l)"
  have nonempty: "?label m \<noteq> []" if "[] \<notin> snd ` set K" for m
  proof (cases "map_of K (upper m)")
    case None
    then show ?thesis by simp
  next
    case (Some l)
    then have "(upper m, l) \<in> set K" by (rule map_of_SomeD)
    then have "l \<in> snd ` set K" by force
    with that have "l \<noteq> []" by metis
    with Some show ?thesis by simp
  qed
  have "\<forall>i<length M. snd (map (\<lambda>m. (upper m, ?label m)) M ! i) = ?label (M ! i)
          \<and> ([] \<notin> snd ` set K \<longrightarrow> snd (map (\<lambda>m. (upper m, ?label m)) M ! i) \<noteq> [])"
    using nonempty by simp
  moreover have "\<forall>ctl sc. fetch_known_devices ctl sc = Inr K \<longrightarrow> [] \<notin> snd ` set K"
    using fetch_known_devices_names by blast
  ultimately show ?thesis
    by (simp only: label_mac_addresses_strs) simp
qed

theorem label_mac_addresses_labels_witness:
  "\<exists>r. label_mac_addresses (map JStr [''aa:bb'', ''cc:dd'']) [(''AA:BB'', ''Laptop'')] = Inr r
       \<and> snd (r ! 0) = ''Laptop'' \<and> snd (r ! 1) = ''Unknown'' \<and> snd (r ! 0) \<noteq> [] \<and> snd (r ! 1) \<noteq> []"
proof -
  from label_mac_addresses_labels[of "[''aa:bb'', ''cc:dd'']" "[(''AA:BB'', ''Laptop'')]"]
  obtain r where r: "label_mac_addresses (map JStr [''aa:bb'', ''cc:dd''])
                       [(''AA:BB'', ''Laptop'')] = Inr r"
      "\<forall>i<2. snd (r ! i) = (case map_of [(''AA:BB'', ''Laptop'')] (upper ([''aa:bb'', ''cc:dd''] ! i))
                              of None \<Rightarrow> ''Unknown'' | Some l \<Rightarrow> l)
             \<and> ([] \<notin> snd ` set [(''AA:BB'', ''Laptop'')] \<longrightarrow> snd (r ! i) \<noteq> [])"
    by auto
  from r(2) have "snd (r ! 0) = ''Laptop'' \<and> snd (r ! 1) = ''Unknown''
       \<and> snd (r ! 0) \<noteq> [] \<and> snd (r ! 1) \<noteq> []"
    by (simp add: py_eval numeral_eq_Suc)
  with r(1) show ?thesis by blast
qed

section \<open>The search filter\<close>

lemma filter_entries_loop_filter:
  "filter_entries_loop needle E =
     filter (\<lambda>e. py_in needle (lower (fst e)) \<or> py_in needle (lower (snd e))) E"
  by (induction needle E rule: filter_entries_loop.induct) simp_all

text \<open>
  Claim C8. For every list \<open>E\<close> of entries, \<^const>\<open>filter_entries\<close> with the empty search term
  returns \<open>E\<close>: the same entries in the same order.
\<close>

theorem filter_entries_empty_term: "filter_entries E [] = E"
  by (simp add: filter_entries_def)

text \<open>
  Claim C9. For every list \<open>E\<close> of entries and every term \<open>T\<close>, \<^const>\<open>filter_entries\<close> keeps
  exactly the entries in whose MAC or label, both in lower case, the term in lower case
  occurs as a substring, each as often as \<open>E\<close> has it, and the result is a subsequence of
  \<open>E\<close>. The statement holds for the empty term too, which occurs in every string.
\<close>

theorem filter_entries_substring:
  "filter_entries E T =
     filter (\<lambda>e. (\<exists>p s. lower (fst e) = p @ lower T @ s)
               \<or> (\<exists>p s. lower (snd e) = p @ lower T @ s)) E
   \<and> subseq (filter_entries E T) E"
proof (cases "T = []")
  case True
  have split: "\<And>x::string. \<exists>p s. x = p @ s" by (metis append_Nil)
  from True show ?thesis by (simp add: filter_entries_def lower_def split)
next
  case False
  then show ?thesis by (simp add: filter_entries_def filter_entries_loop_filter py_in_iff)
qed

section \<open>Known devices\<close>

lemma normalised_mac:
  assumes "attr_upper (py_or v (JStr [])) = Inr mac" and "mac \<noteq> []"
  shows "\<exists>s. v = JStr s \<and> mac = upper s"
  using assms by (cases v) (auto simp: py_or_def attr_upper_def upper_def no_attribute_def split: if_splits)

lemma falsy_mac: "\<not> truthy v \<Longrightarrow> attr_upper (py_or v (JStr [])) = Inr []"
  by (simp add: py_or_def attr_upper_def upper_def)

lemma known_devices_loop_keys:
  "known_devices_loop ds m = Inr r \<Longrightarrow> k \<in> fst ` set r \<Longrightarrow>
     k \<in> fst ` set m \<or> (k \<noteq> [] \<and> (\<exists>d\<in>set ds. \<exists>s. map_of d ''mac'' = Some (JStr s) \<and> k = upper s))"
proof (induction ds arbitrary: m)
  case Nil
  then show ?case by simp
next
  case (Cons d ds)
  show ?case
  proof (cases "attr_upper (py_or (dict_get d ''mac'') (JStr []))")
    case (Inl e)
    with Cons.prems show ?thesis by simp
  next
    case (Inr mac)
    show ?thesis
    proof (cases "mac \<noteq> [] \<and> (\<exists>n. pick_name d = Some n \<and> n \<noteq> [])")
      case False
      with Inr Cons.prems have "known_devices_loop ds m = Inr r"
        by (auto split: option.splits if_splits)
      from Cons.IH[OF this Cons.prems(2)] show ?thesis by auto
    next
      case True
      then obtain n where n: "pick_name d = Some n" "n \<noteq> []" and mac: "mac \<noteq> []" by blast
      from normalised_mac[OF Inr mac] obtain s where
        s: "dict_get d ''mac'' = JStr s" "mac = upper s" by blast
      then have field: "map_of d ''mac'' = Some (JStr s)"
        by (auto simp: dict_get_def split: option.splits)
      from Inr n mac Cons.prems have "known_devices_loop ds (AList.update mac n m) = Inr r"
        by simp
      from Cons.IH[OF this Cons.prems(2)]
      have "k \<in> fst ` set (AList.update mac n m) \<or>
            (k \<noteq> [] \<and> (\<exists>d\<in>set ds. \<exists>s. map_of d ''mac'' = Some (JStr s) \<and> k = upper s))" .
      then show ?thesis
      proof
        assume "k \<in> fst ` set (AList.update mac n m)"
        then have "k = mac \<or> k \<in> fst ` set m" by (simp add: dom_update)
        with mac s field show ?thesis by auto
      next
        assume "k \<noteq> [] \<and> (\<exists>d\<in>set ds. \<exists>s. map_of d ''mac'' = Some (JStr s) \<and> k = upper s)"
        then show ?thesis by auto
      qed
    qed
  qed
qed

lemma known_devices_loop_append:
  "known_devices_loop (xs @ ys) m =
     (case known_devices_loop xs m of Inl e \<Rightarrow> Inl e | Inr m' \<Rightarrow> known_devices_loop ys m')"
  by (induction xs arbitrary: m) (auto split: sum.splits option.splits)

lemma known_devices_loop_skip:
  "\<not> truthy (dict_get d ''mac'') \<Longrightarrow> known_devices_loop (d # ds) m = known_devices_loop ds m"
  by (simp add: falsy_mac)

lemma known_devices_loop_drop:
  assumes "\<not> truthy (dict_get d ''mac'')"
  shows "known_devices_loop (pre @ d # post) m = known_devices_loop (pre @ post) m"
  by (simp add: known_devices_loop_append known_devices_loop_skip[OF assms]
        del: known_devices_loop.simps split: sum.splits)

text \<open>
  Claim C6. Every key of a mapping that \<^const>\<open>fetch_known_devices\<close> returns is non-empty
  and is the upper-case form of the \<^verbatim>\<open>mac\<close> field, a string, of some device of the roster.
  A device whose \<^verbatim>\<open>mac\<close> field is missing or false (empty, \<^verbatim>\<open>null\<close>) changes nothing:
  the method gives what it gives on the roster without that device, be it a mapping or an
  error raised by another device.
\<close>

theorem fetch_known_devices_keys:
  assumes "alluser_answer ctl sc = Inr devices"
  shows "(\<forall>mapping. fetch_known_devices ctl sc = Inr mapping \<longrightarrow>
            (\<forall>k\<in>fst ` set mapping. k \<noteq> [] \<and>
               (\<exists>d\<in>set devices. \<exists>s. map_of d ''mac'' = Some (JStr s) \<and> k = upper s)))
       \<and> (\<forall>pre d post. devices = pre @ d # post \<and> \<not> truthy (dict_get d ''mac'') \<longrightarrow>
            fetch_known_devices ctl sc = known_devices_loop (pre @ post) [])"
proof (rule conjI)
  show "\<forall>mapping. fetch_known_devices ctl sc = Inr mapping \<longrightarrow>
            (\<forall>k\<in>fst ` set mapping. k \<noteq> [] \<and>
               (\<exists>d\<in>set devices. \<exists>s. map_of d ''mac'' = Some (JStr s) \<and> k = upper s))"
  proof (intro allI impI ballI)
    fix mapping k
    assume "fetch_known_devices ctl sc = Inr mapping" and k: "k \<in> fst ` set mapping"
    with assms have "known_devices_loop devices [] = Inr mapping"
      by (simp add: fetch_known_devices_def)
    from known_devices_loop_keys[OF this k]
    show "k \<noteq> [] \<and> (\<exists>d\<in>set devices. \<exists>s. map_of d ''mac'' = Some (JStr s) \<and> k = upper s)"
      by simp
  qed
next
  show "\<forall>pre d post. devices = pre @ d # post \<and> \<not> truthy (dict_get d ''mac'') \<longrightarrow>
            fetch_known_devices ctl sc = known_devices_loop (pre @ post) []"
  proof (intro allI impI)
    fix pre d post
    assume "devices = pre @ d # post \<and> \<not> truthy (dict_get d ''mac'')"
    with assms show "fetch_known_devices ctl sc = known_devices_loop (pre @ post) []"
      by (simp add: fetch_known_devices_def known_devices_loop_drop del: known_devices_loop.simps)
  qed
qed

theorem fetch_known_devices_keys_witness:
  "fetch_known_devices demo_controller ''default'' = Inr [(''AA:BB:CC:DD:EE:FF'', ''host1'')]
   \<and> ''AA:BB:CC:DD:EE:FF'' \<noteq> []
   \<and> (\<exists>d\<in>set demo_devices. \<exists>s. map_of d ''mac'' = Some (JStr s) \<and> ''AA:BB:CC:DD:EE:FF'' = upper s)
   \<and> fetch_known_devices demo_controller ''default'' =
       known_devices_loop
         [[(''mac'', JStr ''aa:bb:cc:dd:ee:ff''), (''hostname'', JStr ''host1''), (''oui'', JStr ''Vendor'')],
          [(''mac'', JStr []), (''name'', JStr ''ghost'')],
          [(''mac'', JStr ''11:22:33:44:55:66''), (''name'', JStr ''   ''), (''hostname'', JNum 7)]] []"
proof -
  have a: "alluser_answer demo_controller ''default'' = Inr demo_devices"
    by (simp add: demo_eval)
  have b: "fetch_known_devices demo_controller ''default'' = Inr [(''AA:BB:CC:DD:EE:FF'', ''host1'')]"
    by (simp add: demo_eval client_eval py_eval)
  have c: "demo_devices =
      [[(''mac'', JStr ''aa:bb:cc:dd:ee:ff''), (''hostname'', JStr ''host1''), (''oui'', JStr ''Vendor'')],
       [(''mac'', JStr []), (''name'', JStr ''ghost'')]]
      @ [(''name'', JStr ''nomac'')]
      # [[(''mac'', JStr ''11:22:33:44:55:66''), (''name'', JStr ''   ''), (''hostname'', JNum 7)]]
      \<and> \<not> truthy (dict_get [(''name'', JStr ''nomac'')] ''mac'')"
    by (simp add: demo_eval py_eval)
  have d: "''AA:BB:CC:DD:EE:FF'' \<in> fst ` set [(''AA:BB:CC:DD:EE:FF'', ''host1'')]" by simp
  from fetch_known_devices_keys[OF a] b d
  have "''AA:BB:CC:DD:EE:FF'' \<noteq> []
      \<and> (\<exists>d\<in>set demo_devices. \<exists>s. map_of d ''mac'' = Some (JStr s) \<and> ''AA:BB:CC:DD:EE:FF'' = upper s)"
    by blast
  moreover from fetch_known_devices_keys[OF a] c
  have "fetch_known_devices demo_controller ''default'' =
       known_devices_loop
         ([[(''mac'', JStr ''aa:bb:cc:dd:ee:ff''), (''hostname'', JStr ''host1''), (''oui'', JStr ''Vendor'')],
           [(''mac'', JStr []), (''name'', JStr ''ghost'')]]
          @ [[(''mac'', JStr ''11:22:33:44:55:66''), (''name'', JStr ''   ''), (''hostname'', JNum 7)]]) []"
    by blast
  ultimately show ?thesis using b by simp
qed

section \<open>Display names\<close>

lemma pick_name_loop_None_iff:
  "pick_name_loop d ks = None \<longleftrightarrow>
     (\<forall>k\<in>set ks. \<not> (\<exists>v. dict_get d k = JStr v \<and> strip v \<noteq> []))"
  by (induction ks) (auto split: json.splits)

lemma pick_name_loop_Some_iff:
  "pick_name_loop d ks = Some n \<longleftrightarrow>
     (\<exists>pre k post v. ks = pre @ k # post
        \<and> (\<forall>k'\<in>set pre. \<not> (\<exists>v'. dict_get d k' = JStr v' \<and> strip v' \<noteq> []))
        \<and> dict_get d k = JStr v \<and> strip v \<noteq> [] \<and> n = strip v)"
  (is "?L ks \<longleftrightarrow> ?R ks")
proof (induction ks)
  case Nil
  show ?case by simp
next
  case (Cons k ks)
  show ?case
  proof (cases "\<exists>v. dict_get d k = JStr v \<and> strip v \<noteq> []")
    case True
    then obtain v where v: "dict_get d k = JStr v" "strip v \<noteq> []" by blast
    have "?R (k # ks) \<longleftrightarrow> n = strip v"
    proof
      assume "?R (k # ks)"
      then obtain pre k' post v' where *: "k # ks = pre @ k' # post"
        "\<forall>k''\<in>set pre. \<not> (\<exists>v'. dict_get d k'' = JStr v' \<and> strip v' \<noteq> [])"
        "dict_get d k' = JStr v'" "n = strip v'" by blast
      have "pre = []"
      proof (cases pre)
        case Nil then show ?thesis .
      next
        case (Cons a pre')
        with *(1) have "a = k" by simp
        with Cons *(2) v show ?thesis by auto
      qed
      with * v show "n = strip v" by simp
    next
      assume "n = strip v"
      with v have "k # ks = [] @ k # ks \<and> (\<forall>k'\<in>set []. \<not> (\<exists>v'. dict_get d k' = JStr v' \<and> strip v' \<noteq> []))
        \<and> dict_get d k = JStr v \<and> strip v \<noteq> [] \<and> n = strip v" by simp
      then show "?R (k # ks)" by blast
    qed
    moreover from v have "?L (k # ks) \<longleftrightarrow> n = strip v" by auto
    ultimately show ?thesis by blast
  next
    case False
    then have step: "pick_name_loop d (k # ks) = pick_name_loop d ks"
      by (auto split: json.splits)
    have "?R (k # ks) \<longleftrightarrow> ?R ks"
    proof
      assume "?R (k # ks)"
      then obtain pre k' post v' where *: "k # ks = pre @ k' # post"
        "\<forall>k''\<in>set pre. \<not> (\<exists>v'. dict_get d k'' = JStr v' \<and> strip v' \<noteq> [])"
        "dict_get d k' = JStr v'" "strip v' \<noteq> []" "n = strip v'" by blast
      show "?R ks"
      proof (cases pre)
        case Nil
        with *(1) have "k' = k" by simp
        with * False show ?thesis by blast
      next
        case (Cons a pre')
        with *(1,2) have "ks = pre' @ k' # post"
          "\<forall>k''\<in>set pre'. \<not> (\<exists>v'. dict_get d k'' = JStr v' \<and> strip v' \<noteq> [])" by auto
        with *(3,4,5) show ?thesis by blast
      qed
    next
      assume "?R ks"
      then obtain pre k' post v' where *: "ks = pre @ k' # post"
        "\<forall>k''\<in>set pre. \<not> (\<exists>v'. dict_get d k'' = JStr v' \<and> strip v' \<noteq> [])"
        "dict_get d k' = JStr v'" "strip v' \<noteq> []" "n = strip v'" by blast
      with False have "k # ks = (k # pre) @ k' # post
        \<and> (\<forall>k''\<in>set (k # pre). \<not> (\<exists>v'. dict_get d k'' = JStr v' \<and> strip v' \<noteq> []))
        \<and> dict_get d k' = JStr v' \<and> strip v' \<noteq> [] \<and> n = strip v'" by simp
      then show "?R (k # ks)" by blast
    qed
    with step Cons.IH show ?thesis by simp
  qed
qed

lemma known_devices_loop_no_name:
  assumes "pick_name d = None" and "attr_upper (py_or (dict_get d ''mac'') (JStr [])) = Inr mac"
  shows "known_devices_loop (d # ds) m = known_devices_loop ds m"
  using assms by simp

text \<open>
  Claim C5. The name of a device is found by going through the fields \<^verbatim>\<open>name\<close>,
  \<^verbatim>\<open>hostname\<close>, \<^verbatim>\<open>usergroup_name\<close>, \<^verbatim>\<open>oui\<close> in this order: it is the value, with the
  white space at both ends removed, of the first field that holds a string which is not
  empty once trimmed. When no field does, there is no name, and \<^const>\<open>fetch_known_devices\<close>
  goes on to the next device with its mapping unchanged. A record with the host name
  \<open>host1\<close> and the vendor \<open>Vendor\<close> gets the name \<open>host1\<close>.
\<close>

theorem pick_name_priority:
  "(pick_name d = Some n \<longleftrightarrow>
      (\<exists>pre k post v. [''name'', ''hostname'', ''usergroup_name'', ''oui''] = pre @ k # post
         \<and> (\<forall>k'\<in>set pre. \<not> (\<exists>v'. dict_get d k' = JStr v' \<and> strip v' \<noteq> []))
         \<and> dict_get d k = JStr v \<and> strip v \<noteq> [] \<and> n = strip v))
   \<and> (pick_name d = None \<longleftrightarrow>
        (\<forall>k\<in>set [''name'', ''hostname'', ''usergroup_name'', ''oui''].
            \<not> (\<exists>v. dict_get d k = JStr v \<and> strip v \<noteq> [])))
   \<and> (pick_name d = None \<longrightarrow>
        (\<forall>mac ds m. attr_upper (py_or (dict_get d ''mac'') (JStr [])) = Inr mac \<longrightarrow>
            known_devices_loop (d # ds) m = known_devices_loop ds m))"
  unfolding pick_name_def name_keys_def
  using pick_name_loop_Some_iff[of d "[''name'', ''hostname'', ''usergroup_name'', ''oui'']" n]
        pick_name_loop_None_iff[of d "[''name'', ''hostname'', ''usergroup_name'', ''oui'']"]
        known_devices_loop_no_name[of d, unfolded pick_name_def name_keys_def]
  by blast

theorem pick_name_priority_witness:
  "pick_name [(''mac'', JStr ''aa:bb''), (''hostname'', JStr ''host1''), (''oui'', JStr ''Vendor'')] = Some ''host1''
   \<and> pick_name [(''mac'', JStr ''aa:bb''), (''name'', JStr ''   ''), (''hostname'', JNum 7)] = None
   \<and> known_devices_loop [[(''mac'', JStr ''aa:bb''), (''name'', JStr ''   ''), (''hostname'', JNum 7)]] [] = Inr []"
proof -
  let ?d = "[(''mac'', JStr ''aa:bb''), (''hostname'', JStr ''host1''), (''oui'', JStr ''Vendor'')]"
  let ?e = "[(''mac'', JStr ''aa:bb''), (''name'', JStr ''   ''), (''hostname'', JNum 7)]"
  have "[''name'', ''hostname'', ''usergroup_name'', ''oui''] = [''name''] @ ''hostname'' # [''usergroup_name'', ''oui'']
     \<and> (\<forall>k'\<in>set [''name'']. \<not> (\<exists>v'. dict_get ?d k' = JStr v' \<and> strip v' \<noteq> []))
     \<and> dict_get ?d ''hostname'' = JStr ''host1'' \<and> strip ''host1'' \<noteq> [] \<and> ''host1'' = strip ''host1''"
    by (simp add: py_eval)
  then have 1: "pick_name ?d = Some ''host1''"
    using pick_name_priority[of ?d "''host1''"] by blast
  have "\<forall>k\<in>set [''name'', ''hostname'', ''usergroup_name'', ''oui''].
            \<not> (\<exists>v. dict_get ?e k = JStr v \<and> strip v \<noteq> [])"
    by (simp add: py_eval)
  then have 2: "pick_name ?e = None"
    using pick_name_priority[of ?e] by blast
  have "attr_upper (py_or (dict_get ?e ''mac'') (JStr [])) = Inr ''AA:BB''"
    by (simp add: py_eval)
  with 2 have "known_devices_loop (?e # []) [] = known_devices_loop [] []"
    using pick_name_priority[of ?e] by blast
  with 1 2 show ?thesis by simp
qed

section \<open>The composed lookup\<close>

lemma lookup_fold_keys:
  "fst ` set (fold (\<lambda>w l. AList.update (name w) w l) ws acc) = fst ` set acc \<union> name ` set ws"
  by (induction ws arbitrary: acc) (auto simp: dom_update)

lemma lookup_fold_distinct:
  "distinct (map fst acc) \<Longrightarrow> distinct (map fst (fold (\<lambda>w l. AList.update (name w) w l) ws acc))"
  by (induction ws arbitrary: acc) (simp_all add: distinct_update)

lemma lookup_fold_values:
  "map_of (fold (\<lambda>w l. AList.update (name w) w l) ws acc) n = Some w \<Longrightarrow>
     (w \<in> set ws \<and> name w = n) \<or> map_of acc n = Some w"
proof (induction ws arbitrary: acc)
  case Nil
  then show ?case by simp
next
  case (Cons a ws)
  from Cons.prems have "map_of (fold (\<lambda>w l. AList.update (name w) w l) ws (AList.update (name a) a acc)) n = Some w"
    by simp
  from Cons.IH[OF this] show ?case
    by (auto simp: update_conv' split: if_splits)
qed

lemma wlan_lookup_None_iff: "map_of (wlan_lookup ws) n = None \<longleftrightarrow> n \<notin> name ` set ws"
  by (simp add: wlan_lookup_def map_of_eq_None_iff lookup_fold_keys)

lemma wlan_lookup_Some: "map_of (wlan_lookup ws) n = Some w \<Longrightarrow> w \<in> set ws \<and> name w = n"
  using lookup_fold_values[of ws "[]" n w] by (simp add: wlan_lookup_def)

lemma wlan_lookup_sorted_keys:
  "sort (map fst (wlan_lookup ws)) = sorted_list_of_set (name ` set ws)"
proof -
  have d: "distinct (map fst (wlan_lookup ws))"
    by (simp add: wlan_lookup_def lookup_fold_distinct)
  have s: "set (map fst (wlan_lookup ws)) = name ` set ws"
    using lookup_fold_keys[of ws "[]"] by (simp add: wlan_lookup_def)
  have "sorted_list_of_set (set (map fst (wlan_lookup ws))) = sort (remdups (map fst (wlan_lookup ws)))"
    by (rule sorted_list_of_set_sort_remdups)
  with d s show ?thesis by (simp add: distinct_remdups_id)
qed

lemma known_devices_loop_error:
  "known_devices_loop ds m = Inl e \<Longrightarrow> \<exists>msg. e = AttributeError msg"
proof (induction ds arbitrary: m)
  case Nil
  then show ?case by simp
next
  case (Cons d ds)
  show ?case
  proof (cases "attr_upper (py_or (dict_get d ''mac'') (JStr []))")
    case (Inl e')
    with Cons.prems have "e = e'" by simp
    with Inl show ?thesis
      by (auto simp: attr_upper_def no_attribute_def split: json.splits)
  next
    case (Inr mac)
    with Cons.prems Cons.IH show ?thesis
      by (auto split: if_splits option.splits)
  qed
qed

lemma fetch_known_devices_error:
  "fetch_known_devices ctl sc = Inl e \<Longrightarrow> (\<exists>msg. e = AttributeError msg) \<or> (\<exists>msg. e = HTTPError msg)"
  by (auto simp: fetch_known_devices_def split: sum.splits dest: known_devices_loop_error)

text \<open>
  Claim C4. Among the profiles \<^const>\<open>fetch_wlans\<close> has returned,
  \<^const>\<open>fetch_mac_filter_details\<close> looks for one whose name equals the requested name,
  character by character. It raises the error \<open>WLAN ... not found\<close> (a \<^verbatim>\<open>ValueError\<close>)
  exactly when no profile has that name, and then the message lists the names of all the
  fetched profiles, each once, in sorted order. A profile it returns has the requested name.
\<close>

theorem fetch_mac_filter_details_not_found:
  assumes "fetch_wlans ctl sc = Inr wlans"
  shows "((\<exists>msg. fetch_mac_filter_details ctl sc wn = Inl (ValueError msg)) \<longleftrightarrow> wn \<notin> name ` set wlans)
       \<and> (wn \<notin> name ` set wlans \<longrightarrow>
            fetch_mac_filter_details ctl sc wn =
              Inl (ValueError (''WLAN '' @ quoted wn @ '' not found. Available: ''
                               @ join '', '' (sorted_list_of_set (name ` set wlans)))))
       \<and> (\<forall>w K. fetch_mac_filter_details ctl sc wn = Inr (w, K) \<longrightarrow> w \<in> set wlans \<and> name w = wn)"
proof (cases "map_of (wlan_lookup wlans) wn")
  case None
  then have absent: "wn \<notin> name ` set wlans" by (simp add: wlan_lookup_None_iff)
  from None assms have "fetch_mac_filter_details ctl sc wn =
      Inl (ValueError (''WLAN '' @ quoted wn @ '' not found. Available: ''
                       @ join '', '' (sorted_list_of_set (name ` set wlans))))"
    by (simp add: fetch_mac_filter_details_def wlan_lookup_sorted_keys)
  with absent show ?thesis by simp
next
  case (Some w)
  then have found: "w \<in> set wlans" "name w = wn" by (auto dest: wlan_lookup_Some)
  then have present: "wn \<in> name ` set wlans" by auto
  from Some assms have result: "fetch_mac_filter_details ctl sc wn =
      (case fetch_known_devices ctl sc of Inl e \<Rightarrow> Inl e | Inr K \<Rightarrow> Inr (w, K))"
    by (simp add: fetch_mac_filter_details_def)
  have "\<not> (\<exists>msg. fetch_mac_filter_details ctl sc wn = Inl (ValueError msg))"
    using result fetch_known_devices_error[of ctl sc]
    by (auto split: sum.splits)
  moreover have "\<forall>w' K. fetch_mac_filter_details ctl sc wn = Inr (w', K) \<longrightarrow> w' \<in> set wlans \<and> name w' = wn"
    using result found by (auto split: sum.splits)
  ultimately show ?thesis using present by blast
qed

theorem fetch_mac_filter_details_not_found_witness:
  "fetch_wlans demo_controller ''default'' =
     Inr [\<lparr>name = ''guest'', mac_filter_list = []\<rparr>,
          \<lparr>name = ''Home'',
           mac_filter_list = [JStr ''aa:bb:cc:dd:ee:ff'', JStr ''11:22:33:44:55:66'']\<rparr>,
          \<lparr>name = ''IoT'', mac_filter_list = []\<rparr>]
   \<and> fetch_mac_filter_details demo_controller ''default'' ''home'' =
       Inl (ValueError (''WLAN '' @ quoted ''home'' @ '' not found. Available: Home, IoT, guest''))
   \<and> \<not> (\<exists>msg. fetch_mac_filter_details demo_controller ''default'' ''Home'' = Inl (ValueError msg))"
proof -
  let ?wlans = "[\<lparr>name = ''guest'', mac_filter_list = []\<rparr>,
          \<lparr>name = ''Home'',
           mac_filter_list = [JStr ''aa:bb:cc:dd:ee:ff'', JStr ''11:22:33:44:55:66'']\<rparr>,
          \<lparr>name = ''IoT'', mac_filter_list = []\<rparr>]"
  have a: "fetch_wlans demo_controller ''default'' = Inr ?wlans"
    by (simp add: demo_eval client_eval py_eval)
  have names: "name ` set ?wlans = set [''guest'', ''Home'', ''IoT'']" by simp
  have sorted: "sorted_list_of_set (name ` set ?wlans) = [''Home'', ''IoT'', ''guest'']"
    by (simp only: names sorted_list_of_set_sort_remdups) simp
  have absent: "''home'' \<notin> name ` set ?wlans" by simp
  have present: "''Home'' \<in> name ` set ?wlans" by simp
  from fetch_mac_filter_details_not_found[OF a, of "''home''"] absent
  have "fetch_mac_filter_details demo_controller ''default'' ''home'' =
      Inl (ValueError (''WLAN '' @ quoted ''home'' @ '' not found. Available: ''
                       @ join '', '' (sorted_list_of_set (name ` set ?wlans))))"
    by blast
  then have "fetch_mac_filter_details demo_controller ''default'' ''home'' =
       Inl (ValueError (''WLAN '' @ quoted ''home'' @ '' not found. Available: Home, IoT, guest''))"
    by (simp only: sorted) simp
  moreover from fetch_mac_filter_details_not_found[OF a, of "''Home''"] present
  have "\<not> (\<exists>msg. fetch_mac_filter_details demo_controller ''default'' ''Home'' = Inl (ValueError msg))"
    by blast
  ultimately show ?thesis using a by blast
qed

section \<open>Missing filter lists\<close>

lemma wlan_fields_member:
  "wlan_fields data = Inr raw \<Longrightarrow> item \<in> set data \<Longrightarrow>
     \<exists>macs. py_list (py_or (dict_get item ''mac_filter_list'') (JArr [])) = Inr macs
          \<and> (dict_get_default item ''name'' (JStr []), macs) \<in> set raw"
proof (induction data arbitrary: raw)
  case Nil
  then show ?case by simp
next
  case (Cons a data)
  from Cons.prems(1) obtain macs rest where
    a: "py_list (py_or (dict_get a ''mac_filter_list'') (JArr [])) = Inr macs"
    and rest: "wlan_fields data = Inr rest"
    and raw: "raw = (dict_get_default a ''name'' (JStr []), macs) # rest"
    by (auto split: sum.splits)
  show ?case
  proof (cases "item = a")
    case True
    with a raw show ?thesis by simp
  next
    case False
    with Cons.prems(2) have "item \<in> set data" by simp
    from Cons.IH[OF rest this] raw show ?thesis by auto
  qed
qed

lemma wlan_keys_member:
  "wlan_keys raw = Inr ws \<Longrightarrow> (n, macs) \<in> set raw \<Longrightarrow>
     \<exists>w\<in>set ws. JStr (name w) = n \<and> mac_filter_list w = macs"
proof (induction raw arbitrary: ws)
  case Nil
  then show ?case by simp
next
  case (Cons p raw)
  obtain v ms where p: "p = (v, ms)" by (cases p)
  from Cons.prems(1) p obtain s rest where
    v: "v = JStr s" and rest: "wlan_keys raw = Inr rest"
    and ws: "ws = \<lparr>name = s, mac_filter_list = ms\<rparr> # rest"
    by (cases v) (auto split: sum.splits)
  show ?case
  proof (cases "(n, macs) = p")
    case True
    with p v ws show ?thesis by simp
  next
    case False
    with Cons.prems(2) have "(n, macs) \<in> set raw" by auto
    from Cons.IH[OF rest this] ws show ?thesis by auto
  qed
qed

lemma wlan_fields_returns:
  "\<forall>it\<in>set data. \<exists>xs. py_list (py_or (dict_get it ''mac_filter_list'') (JArr [])) = Inr xs \<Longrightarrow>
     \<exists>raw. wlan_fields data = Inr raw
        \<and> map fst raw = map (\<lambda>it. dict_get_default it ''name'' (JStr [])) data"
  by (induction data) auto

lemma wlan_keys_returns:
  "\<forall>p\<in>set raw. \<exists>n. fst p = JStr n \<Longrightarrow> \<exists>ws. wlan_keys raw = Inr ws"
proof (induction raw)
  case Nil
  then show ?case by simp
next
  case (Cons p raw)
  then obtain n ms where "p = (JStr n, ms)" by (cases p) auto
  with Cons show ?case by auto
qed

lemma absent_filter_list:
  "dict_get item ''mac_filter_list'' = JNull \<Longrightarrow>
     py_list (py_or (dict_get item ''mac_filter_list'') (JArr [])) = Inr []"
  by (simp add: py_or_def py_list_def)

lemma array_filter_list:
  "dict_get item ''mac_filter_list'' = JArr xs \<Longrightarrow>
     py_list (py_or (dict_get item ''mac_filter_list'') (JArr [])) = Inr xs"
  by (cases xs) (simp_all add: py_or_def py_list_def)

lemma wlans_of_data_member:
  assumes "wlans_of_data data = Inr wlans" and "item \<in> set data"
  shows "\<exists>w\<in>set wlans. JStr (name w) = dict_get_default item ''name'' (JStr [])
           \<and> py_list (py_or (dict_get item ''mac_filter_list'') (JArr [])) = Inr (mac_filter_list w)"
proof -
  from assms(1) obtain raw ws where raw: "wlan_fields data = Inr raw"
    and ws: "wlan_keys raw = Inr ws" and sorted: "wlans = sort_key (\<lambda>w. lower (name w)) ws"
    by (auto simp: wlans_of_data_def split: sum.splits)
  from wlan_fields_member[OF raw assms(2)] obtain macs where
    macs: "py_list (py_or (dict_get item ''mac_filter_list'') (JArr [])) = Inr macs"
      "(dict_get_default item ''name'' (JStr []), macs) \<in> set raw" by blast
  from wlan_keys_member[OF ws macs(2)] obtain w where
    "w \<in> set ws" "JStr (name w) = dict_get_default item ''name'' (JStr [])"
    "mac_filter_list w = macs" by blast
  with macs(1) sorted show ?thesis by auto
qed

lemma wlans_of_data_returns:
  assumes "\<forall>it\<in>set data. (\<exists>n. dict_get_default it ''name'' (JStr []) = JStr n)
              \<and> (dict_get it ''mac_filter_list'' = JNull \<or> (\<exists>xs. dict_get it ''mac_filter_list'' = JArr xs))"
  shows "\<exists>wlans. wlans_of_data data = Inr wlans"
proof -
  from assms have "\<forall>it\<in>set data. \<exists>xs. py_list (py_or (dict_get it ''mac_filter_list'') (JArr [])) = Inr xs"
    using absent_filter_list array_filter_list by blast
  from wlan_fields_returns[OF this] obtain raw where raw: "wlan_fields data = Inr raw"
    "map fst raw = map (\<lambda>it. dict_get_default it ''name'' (JStr [])) data" by blast
  have "\<forall>p\<in>set raw. \<exists>n. fst p = JStr n"
  proof
    fix p assume "p \<in> set raw"
    then have "fst p \<in> set (map fst raw)" by simp
    with raw(2) obtain it where "it \<in> set data" "fst p = dict_get_default it ''name'' (JStr [])"
      by auto
    with assms show "\<exists>n. fst p = JStr n" by auto
  qed
  from wlan_keys_returns[OF this] obtain ws where "wlan_keys raw = Inr ws" by blast
  with raw(1) show ?thesis by (simp add: wlans_of_data_def)
qed

lemma run_cli_empty_list:
  assumes details: "fetch_mac_filter_details ctl (site args) (wlan args) = Inr (w, K)"
      and empty: "mac_filter_list w = []"
      and args: "ensure_cli_args args = None"
      and login: "login ctl (user args) (password (prompt_password env args)) = None"
  shows "(out args = [] \<longrightarrow>
            run_cli ctl env args =
              Inr \<lparr>exit_code = 0, stdout = [''No MAC addresses found.''], exported = None\<rparr>)
       \<and> (out args \<noteq> [] \<and> (lower (format args) = ''txt'' \<or> lower (format args) = ''csv'') \<longrightarrow>
            (\<exists>file. run_cli ctl env args =
               Inr \<lparr>exit_code = 0,
                    stdout = [''Exported 0 entries to '' @ out args @ '' ('' @ format args @ '').''],
                    exported = Some file\<rparr>))"
proof -
  have same: "user (prompt_password env args) = user args" "site (prompt_password env args) = site args"
    "wlan (prompt_password env args) = wlan args" "out (prompt_password env args) = out args"
    "format (prompt_password env args) = format args"
    by (simp_all add: prompt_password_def)
  have zero: "show_nat 0 = ''0''" by (simp add: show_nat.simps)
  show ?thesis
    using details empty args login
    by (auto simp: run_cli_def Let_def same zero print_table_def export_results_def)
qed

text \<open>
  Claim C7. Take a WLAN record whose \<^verbatim>\<open>mac_filter_list\<close> field is missing or \<^verbatim>\<open>null\<close>.
  In every list that \<^const>\<open>fetch_wlans\<close> returns, the profile built from the record has
  the empty filter list; and \<^const>\<open>fetch_wlans\<close> does return when every record has a string
  as its name and a filter list that is missing, \<^verbatim>\<open>null\<close> or a JSON array. Over a profile
  with the empty filter list the labeler gives the empty list, and \<^const>\<open>run_cli\<close>, once
  its arguments are complete and the login is accepted, ends with exit code 0: it prints
  \<open>No MAC addresses found.\<close>, or with \<^verbatim>\<open>--out\<close> and the format \<^verbatim>\<open>txt\<close> or \<^verbatim>\<open>csv\<close> it
  writes the file and reports 0 entries.
\<close>

theorem absent_filter_list_is_empty:
  assumes answer: "wlanconf_answer ctl sc = Inr data"
      and item: "item \<in> set data"
      and absent: "dict_get item ''mac_filter_list'' = JNull"
  shows "(\<forall>wlans. fetch_wlans ctl sc = Inr wlans \<longrightarrow>
            (\<exists>w\<in>set wlans. JStr (name w) = dict_get_default item ''name'' (JStr [])
                          \<and> mac_filter_list w = []))
       \<and> ((\<forall>it\<in>set data. (\<exists>n. dict_get_default it ''name'' (JStr []) = JStr n)
              \<and> (dict_get it ''mac_filter_list'' = JNull
                  \<or> (\<exists>xs. dict_get it ''mac_filter_list'' = JArr xs))) \<longrightarrow>
            (\<exists>wlans. fetch_wlans ctl sc = Inr wlans))
       \<and> (\<forall>w K env args.
            fetch_mac_filter_details ctl sc (wlan args) = Inr (w, K) \<and> mac_filter_list w = []
            \<and> site args = sc \<and> ensure_cli_args args = None
            \<and> login ctl (user args) (password (prompt_password env args)) = None \<longrightarrow>
              label_mac_addresses (mac_filter_list w) K = Inr []
            \<and> (out args = [] \<longrightarrow>
                 run_cli ctl env args =
                   Inr \<lparr>exit_code = 0, stdout = [''No MAC addresses found.''], exported = None\<rparr>)
            \<and> (out args \<noteq> [] \<and> (lower (format args) = ''txt'' \<or> lower (format args) = ''csv'') \<longrightarrow>
                 (\<exists>file. run_cli ctl env args =
                    Inr \<lparr>exit_code = 0,
                         stdout = [''Exported 0 entries to '' @ out args
                                   @ '' ('' @ format args @ '').''],
                         exported = Some file\<rparr>)))"
proof (intro conjI)
  show "\<forall>wlans. fetch_wlans ctl sc = Inr wlans \<longrightarrow>
          (\<exists>w\<in>set wlans. JStr (name w) = dict_get_default item ''name'' (JStr [])
                        \<and> mac_filter_list w = [])"
  proof (intro allI impI)
    fix wlans assume "fetch_wlans ctl sc = Inr wlans"
    with answer have "wlans_of_data data = Inr wlans" by (simp add: fetch_wlans_def)
    from wlans_of_data_member[OF this item] absent_filter_list[OF absent]
    show "\<exists>w\<in>set wlans. JStr (name w) = dict_get_default item ''name'' (JStr [])
                        \<and> mac_filter_list w = []"
      by auto
  qed
next
  show "(\<forall>it\<in>set data. (\<exists>n. dict_get_default it ''name'' (JStr []) = JStr n)
              \<and> (dict_get it ''mac_filter_list'' = JNull
                  \<or> (\<exists>xs. dict_get it ''mac_filter_list'' = JArr xs))) \<longrightarrow>
            (\<exists>wlans. fetch_wlans ctl sc = Inr wlans)"
    using answer wlans_of_data_returns[of data] by (simp add: fetch_wlans_def)
next
  show "\<forall>w K env args.
            fetch_mac_filter_details ctl sc (wlan args) = Inr (w, K) \<and> mac_filter_list w = []
            \<and> site args = sc \<and> ensure_cli_args args = None
            \<and> login ctl (user args) (password (prompt_password env args)) = None \<longrightarrow>
              label_mac_addresses (mac_filter_list w) K = Inr []
            \<and> (out args = [] \<longrightarrow>
                 run_cli ctl env args =
                   Inr \<lparr>exit_code = 0, stdout = [''No MAC addresses found.''], exported = None\<rparr>)
            \<and> (out args \<noteq> [] \<and> (lower (format args) = ''txt'' \<or> lower (format args) = ''csv'') \<longrightarrow>
                 (\<exists>file. run_cli ctl env args =
                    Inr \<lparr>exit_code = 0,
                         stdout = [''Exported 0 entries to '' @ out args
                                   @ '' ('' @ format args @ '').''],
                         exported = Some file\<rparr>))"
  proof (intro allI impI)
    fix w K env args
    assume h: "fetch_mac_filter_details ctl sc (wlan args) = Inr (w, K) \<and> mac_filter_list w = []
            \<and> site args = sc \<and> ensure_cli_args args = None
            \<and> login ctl (user args) (password (prompt_password env args)) = None"
    then have d: "fetch_mac_filter_details ctl (site args) (wlan args) = Inr (w, K)" by simp
    from h have e: "mac_filter_list w = []" and a: "ensure_cli_args args = None"
      and l: "login ctl (user args) (password (prompt_password env args)) = None" by simp_all
    from run_cli_empty_list[OF d e a l] e
    show "label_mac_addresses (mac_filter_list w) K = Inr []
            \<and> (out args = [] \<longrightarrow>
                 run_cli ctl env args =
                   Inr \<lparr>exit_code = 0, stdout = [''No MAC addresses found.''], exported = None\<rparr>)
            \<and> (out args \<noteq> [] \<and> (lower (format args) = ''txt'' \<or> lower (format args) = ''csv'') \<longrightarrow>
                 (\<exists>file. run_cli ctl env args =
                    Inr \<lparr>exit_code = 0,
                         stdout = [''Exported 0 entries to '' @ out args
                                   @ '' ('' @ format args @ '').''],
                         exported = Some file\<rparr>))"
      by simp
  qed
qed

theorem absent_filter_list_is_empty_witness:
  "(\<exists>w\<in>set [\<lparr>name = ''guest'', mac_filter_list = []\<rparr>,
               \<lparr>name = ''Home'',
                mac_filter_list = [JStr ''aa:bb:cc:dd:ee:ff'', JStr ''11:22:33:44:55:66'']\<rparr>,
               \<lparr>name = ''IoT'', mac_filter_list = []\<rparr>].
        JStr (name w) = JStr ''guest'' \<and> mac_filter_list w = [])
   \<and> (\<exists>wlans. fetch_wlans demo_controller ''default'' = Inr wlans)
   \<and> label_mac_addresses [] [(''AA:BB:CC:DD:EE:FF'', ''host1'')] = Inr []
   \<and> run_cli demo_controller demo_env (demo_args\<lparr>wlan := ''guest''\<rparr>) =
       Inr \<lparr>exit_code = 0, stdout = [''No MAC addresses found.''], exported = None\<rparr>"
proof -
  let ?item = "[(''name'', JStr ''guest'')]"
  let ?args = "demo_args\<lparr>wlan := ''guest''\<rparr>"
  let ?w = "\<lparr>name = ''guest'', mac_filter_list = []\<rparr>"
  let ?K = "[(''AA:BB:CC:DD:EE:FF'', ''host1'')]"
  have a: "wlanconf_answer demo_controller ''default'' = Inr demo_wlans" by (simp add: demo_eval)
  have b: "?item \<in> set demo_wlans" by (simp add: demo_eval)
  have c: "dict_get ?item ''mac_filter_list'' = JNull" by (simp add: py_eval)
  note inst = absent_filter_list_is_empty[OF a b c]
  have fetched: "fetch_wlans demo_controller ''default'' =
     Inr [\<lparr>name = ''guest'', mac_filter_list = []\<rparr>,
          \<lparr>name = ''Home'',
           mac_filter_list = [JStr ''aa:bb:cc:dd:ee:ff'', JStr ''11:22:33:44:55:66'']\<rparr>,
          \<lparr>name = ''IoT'', mac_filter_list = []\<rparr>]"
    by (simp add: demo_eval client_eval py_eval)
  have name_field: "dict_get_default ?item ''name'' (JStr []) = JStr ''guest''"
    by (simp add: py_eval)
  from inst fetched name_field
  have 1: "\<exists>w\<in>set [\<lparr>name = ''guest'', mac_filter_list = []\<rparr>,
               \<lparr>name = ''Home'',
                mac_filter_list = [JStr ''aa:bb:cc:dd:ee:ff'', JStr ''11:22:33:44:55:66'']\<rparr>,
               \<lparr>name = ''IoT'', mac_filter_list = []\<rparr>].
        JStr (name w) = JStr ''guest'' \<and> mac_filter_list w = []"
    by auto
  have "\<forall>it\<in>set demo_wlans. (\<exists>n. dict_get_default it ''name'' (JStr []) = JStr n)
          \<and> (dict_get it ''mac_filter_list'' = JNull \<or> (\<exists>xs. dict_get it ''mac_filter_list'' = JArr xs))"
    by (simp add: demo_eval py_eval)
  with inst have 2: "\<exists>wlans. fetch_wlans demo_controller ''default'' = Inr wlans" by blast
  have details: "fetch_mac_filter_details demo_controller ''default'' (wlan ?args) = Inr (?w, ?K)"
    by (simp add: demo_eval client_eval py_eval)
  have rest: "mac_filter_list ?w = []" "site ?args = ''default''" "ensure_cli_args ?args = None"
    "login demo_controller (user ?args) (password (prompt_password demo_env ?args)) = None"
    "out ?args = []"
    by (simp_all add: demo_eval login_def ensure_cli_args_def prompt_password_def)
  from inst details rest
  have 3: "label_mac_addresses (mac_filter_list ?w) ?K = Inr []
      \<and> run_cli demo_controller demo_env ?args =
          Inr \<lparr>exit_code = 0, stdout = [''No MAC addresses found.''], exported = None\<rparr>"
    by blast
  from 1 2 3 show ?thesis by simp
qed

section \<open>Sites\<close>

lemma site_keys_member:
  "site_keys raw = Inr sites \<Longrightarrow> (c, d) \<in> set raw \<Longrightarrow>
     \<exists>s\<in>set sites. code s = c \<and> JStr (description s) = d"
proof (induction raw arbitrary: sites)
  case Nil
  then show ?case by simp
next
  case (Cons p raw)
  obtain c' d' where p: "p = (c', d')" by (cases p)
  from Cons.prems(1) p obtain s rest where
    d': "d' = JStr s" and rest: "site_keys raw = Inr rest"
    and sites: "sites = \<lparr>code = c', description = s\<rparr> # rest"
    by (cases d') (auto split: sum.splits)
  show ?case
  proof (cases "(c, d) = p")
    case True
    with p d' sites show ?thesis by simp
  next
    case False
    with Cons.prems(2) have "(c, d) \<in> set raw" by auto
    from Cons.IH[OF rest this] sites show ?thesis by auto
  qed
qed

lemma site_keys_returns_iff:
  "(\<exists>sites. site_keys raw = Inr sites) \<longleftrightarrow> (\<forall>p\<in>set raw. \<exists>d. snd p = JStr d)"
proof (induction raw)
  case Nil
  show ?case by simp
next
  case (Cons p raw)
  obtain c d where p: "p = (c, d)" by (cases p)
  show ?case
  proof (cases d)
    case (JStr s)
    with p Cons show ?thesis by (auto split: sum.splits)
  qed (use p in \<open>simp_all\<close>)
qed

lemma falsy_desc:
  "\<not> truthy (dict_get item ''desc'') \<Longrightarrow>
     site_fields item = (dict_get_default item ''name'' (JStr []), dict_get_default item ''name'' (JStr []))"
  by (simp add: site_fields_def py_or_def)

text \<open>
  Claim C10. For every site record whose \<^verbatim>\<open>desc\<close> field is missing or false (empty,
  \<^verbatim>\<open>null\<close>), the \<^verbatim>\<open>Site\<close> built from it has its code as its description, the code being
  the record's \<^verbatim>\<open>name\<close> field, or the empty string when the record has none; every list
  that \<^const>\<open>fetch_sites\<close> returns holds that \<^verbatim>\<open>Site\<close>, with a string as its description.
  \<^const>\<open>fetch_sites\<close> returns exactly when the description built for each record is a
  string, so no description comes back as a missing value.
\<close>

theorem fetch_sites_description_defaults_to_code:
  assumes "sites_answer ctl = Inr data" and "item \<in> set data"
      and "\<not> truthy (dict_get item ''desc'')"
  shows "site_fields item =
           (dict_get_default item ''name'' (JStr []), dict_get_default item ''name'' (JStr []))
       \<and> (map_of item ''name'' = None \<longrightarrow> site_fields item = (JStr [], JStr []))
       \<and> (\<forall>sites. fetch_sites ctl = Inr sites \<longrightarrow>
            (\<exists>s\<in>set sites. code s = dict_get_default item ''name'' (JStr [])
                          \<and> JStr (description s) = code s))
       \<and> ((\<exists>sites. fetch_sites ctl = Inr sites) \<longleftrightarrow>
            (\<forall>it\<in>set data. \<exists>d. snd (site_fields it) = JStr d))"
proof (intro conjI)
  show fields: "site_fields item =
      (dict_get_default item ''name'' (JStr []), dict_get_default item ''name'' (JStr []))"
    using assms(3) by (rule falsy_desc)
  then show "map_of item ''name'' = None \<longrightarrow> site_fields item = (JStr [], JStr [])"
    by (simp add: dict_get_default_def)
  show "\<forall>sites. fetch_sites ctl = Inr sites \<longrightarrow>
            (\<exists>s\<in>set sites. code s = dict_get_default item ''name'' (JStr [])
                          \<and> JStr (description s) = code s)"
  proof (intro allI impI)
    fix sites assume "fetch_sites ctl = Inr sites"
    with assms(1) obtain ss where ss: "site_keys (map site_fields data) = Inr ss"
      and sorted: "sites = sort_key (\<lambda>s. lower (description s)) ss"
      by (auto simp: fetch_sites_def split: sum.splits)
    from assms(2) fields
    have "(dict_get_default item ''name'' (JStr []), dict_get_default item ''name'' (JStr []))
            \<in> set (map site_fields data)"
      by force
    from site_keys_member[OF ss this] sorted
    show "\<exists>s\<in>set sites. code s = dict_get_default item ''name'' (JStr [])
                          \<and> JStr (description s) = code s"
      by auto
  qed
  have "(\<exists>sites. fetch_sites ctl = Inr sites) \<longleftrightarrow> (\<exists>ss. site_keys (map site_fields data) = Inr ss)"
    using assms(1) by (auto simp: fetch_sites_def split: sum.splits)
  then show "(\<exists>sites. fetch_sites ctl = Inr sites) \<longleftrightarrow>
            (\<forall>it\<in>set data. \<exists>d. snd (site_fields it) = JStr d)"
    by (simp add: site_keys_returns_iff)
qed

theorem fetch_sites_description_defaults_to_code_witness:
  "fetch_sites demo_controller =
     Inr [\<lparr>code = JStr ''k3x9p'', description = ''Branch Office''\<rparr>,
          \<lparr>code = JStr ''default'', description = ''Default''\<rparr>,
          \<lparr>code = JStr ''lab'', description = ''lab''\<rparr>]
   \<and> (\<exists>s\<in>set [\<lparr>code = JStr ''k3x9p'', description = ''Branch Office''\<rparr>,
                \<lparr>code = JStr ''default'', description = ''Default''\<rparr>,
                \<lparr>code = JStr ''lab'', description = ''lab''\<rparr>].
         code s = JStr ''lab'' \<and> JStr (description s) = code s)"
proof -
  let ?item = "[(''name'', JStr ''lab'')]"
  have a: "sites_answer demo_controller = Inr demo_sites" by (simp add: demo_eval)
  have b: "?item \<in> set demo_sites" by (simp add: demo_eval)
  have c: "\<not> truthy (dict_get ?item ''desc'')" by (simp add: py_eval)
  have d: "fetch_sites demo_controller =
     Inr [\<lparr>code = JStr ''k3x9p'', description = ''Branch Office''\<rparr>,
          \<lparr>code = JStr ''default'', description = ''Default''\<rparr>,
          \<lparr>code = JStr ''lab'', description = ''lab''\<rparr>]"
    by (simp add: demo_eval client_eval py_eval site_fields_def)
  have e: "dict_get_default ?item ''name'' (JStr []) = JStr ''lab''" by (simp add: py_eval)
  from fetch_sites_description_defaults_to_code[OF a b c] d e show ?thesis
    by auto
qed

section \<open>Site hints\<close>

text \<open>
  \<^const>\<open>run_cli\<close> never asks the controller for its sites: it hands \<^verbatim>\<open>--site\<close> to
  \<^const>\<open>fetch_mac_filter_details\<close> as the site code, as it was typed.
\<close>

lemma run_cli_ignores_sites:
  "run_cli (ctl\<lparr>sites_answer := x\<rparr>) env args = run_cli ctl env args"
proof -
  have l: "login (ctl\<lparr>sites_answer := x\<rparr>) = login ctl"
    by (simp add: login_def fun_eq_iff)
  have w: "fetch_wlans (ctl\<lparr>sites_answer := x\<rparr>) = fetch_wlans ctl"
    by (simp add: fetch_wlans_def fun_eq_iff)
  have k: "fetch_known_devices (ctl\<lparr>sites_answer := x\<rparr>) = fetch_known_devices ctl"
    by (simp add: fetch_known_devices_def fun_eq_iff)
  have d: "fetch_mac_filter_details (ctl\<lparr>sites_answer := x\<rparr>) sc wn =
      fetch_mac_filter_details ctl sc wn" for sc wn
    by (simp only: fetch_mac_filter_details_def w k)
  show ?thesis by (simp only: run_cli_def l d)
qed

text \<open>
  So a hint that is not a site code of the controller ends the run with exit code 1, whether
  the controller refuses the request or answers with no profile.
\<close>

lemma run_cli_unknown_site_code:
  assumes "ensure_cli_args args = None"
      and "(\<exists>msg. wlanconf_answer ctl (site args) = Inl msg) \<or> wlanconf_answer ctl (site args) = Inr []"
  shows "\<exists>r. run_cli ctl env args = Inr r \<and> exit_code r = 1"
proof -
  have s: "site (prompt_password env args) = site args"
    by (simp add: prompt_password_def)
  from assms(2) have "\<exists>e. fetch_mac_filter_details ctl (site args) (wlan (prompt_password env args)) = Inl e"
    by (auto simp: fetch_mac_filter_details_def fetch_wlans_def wlans_of_data_def wlan_lookup_def)
  then obtain e where "fetch_mac_filter_details ctl (site args) (wlan (prompt_password env args)) = Inl e" ..
  with assms(1) s show ?thesis
    by (simp add: run_cli_def Let_def split: option.splits)
qed

text \<open>
  The earlier script does resolve a hint. On site records that all have a string as
  \<^verbatim>\<open>name\<close> and as \<^verbatim>\<open>desc\<close>, it returns the code of the first site whose description or
  code is the hint up to case, and raises the error that lists every description when no
  site is.
\<close>

lemma resolve_site_code_loop_found:
  assumes "\<forall>s\<in>set data. \<exists>c d. map_of s ''name'' = Some (JStr c) \<and> map_of s ''desc'' = Some (JStr d)"
      and "\<exists>s\<in>set data. \<exists>c d. map_of s ''name'' = Some (JStr c) \<and> map_of s ''desc'' = Some (JStr d)
              \<and> (lower hint = lower d \<or> lower hint = lower c)"
  shows "\<exists>s\<in>set data. \<exists>c d. resolve_site_code_loop hint data = Inr (Some c)
            \<and> map_of s ''name'' = Some (JStr c) \<and> map_of s ''desc'' = Some (JStr d)
            \<and> (lower hint = lower d \<or> lower hint = lower c)"
  using assms
proof (induction data)
  case Nil
  then show ?case by simp
next
  case (Cons a data)
  from Cons.prems(1) obtain c d where
    a: "map_of a ''name'' = Some (JStr c)" "map_of a ''desc'' = Some (JStr d)" by auto
  show ?case
  proof (cases "lower hint = lower d \<or> lower hint = lower c")
    case True
    with a have "resolve_site_code_loop hint (a # data) = Inr (Some c)"
      by (simp add: subscript_def)
    with a True show ?thesis by auto
  next
    case False
    with a have step: "resolve_site_code_loop hint (a # data) = resolve_site_code_loop hint data"
      by (simp add: subscript_def)
    from False a Cons.prems(2) have
      "\<exists>s\<in>set data. \<exists>c d. map_of s ''name'' = Some (JStr c) \<and> map_of s ''desc'' = Some (JStr d)
              \<and> (lower hint = lower d \<or> lower hint = lower c)"
      by auto
    moreover from Cons.prems(1) have
      "\<forall>s\<in>set data. \<exists>c d. map_of s ''name'' = Some (JStr c) \<and> map_of s ''desc'' = Some (JStr d)"
      by simp
    ultimately show ?thesis using Cons.IH step by auto
  qed
qed

lemma resolve_site_code_loop_not_found:
  assumes "\<forall>s\<in>set data. \<exists>c d. map_of s ''name'' = Some (JStr c) \<and> map_of s ''desc'' = Some (JStr d)
              \<and> lower hint \<noteq> lower d \<and> lower hint \<noteq> lower c"
  shows "resolve_site_code_loop hint data = Inr None
       \<and> descriptions data = Inr (map (\<lambda>s. dict_get s ''desc'') data)"
  using assms
proof (induction data)
  case Nil
  then show ?case by simp
next
  case (Cons a data)
  from Cons.prems obtain c d where
    a: "map_of a ''name'' = Some (JStr c)" "map_of a ''desc'' = Some (JStr d)"
       "lower hint \<noteq> lower d" "lower hint \<noteq> lower c" by auto
  from Cons have "resolve_site_code_loop hint data = Inr None
       \<and> descriptions data = Inr (map (\<lambda>s. dict_get s ''desc'') data)" by simp
  with a show ?case by (simp add: subscript_def dict_get_def)
qed

lemma resolve_site_code_resolves:
  assumes "sites_answer ctl = Inr data"
      and "\<forall>s\<in>set data. \<exists>c d. map_of s ''name'' = Some (JStr c) \<and> map_of s ''desc'' = Some (JStr d)"
  shows "((\<exists>s\<in>set data. \<exists>c d. map_of s ''name'' = Some (JStr c) \<and> map_of s ''desc'' = Some (JStr d)
              \<and> (lower hint = lower d \<or> lower hint = lower c)) \<longrightarrow>
          (\<exists>s\<in>set data. \<exists>c d. resolve_site_code ctl hint = Inr c
              \<and> map_of s ''name'' = Some (JStr c) \<and> map_of s ''desc'' = Some (JStr d)
              \<and> (lower hint = lower d \<or> lower hint = lower c)))
       \<and> (\<not> (\<exists>s\<in>set data. \<exists>c d. map_of s ''name'' = Some (JStr c) \<and> map_of s ''desc'' = Some (JStr d)
              \<and> (lower hint = lower d \<or> lower hint = lower c)) \<longrightarrow>
          resolve_site_code ctl hint =
            Inl (ValueError (''Site '' @ quoted hint @ '' not found. Available: ''
                             @ py_repr (JArr (map (\<lambda>s. dict_get s ''desc'') data)))))"
proof (intro conjI impI)
  assume "\<exists>s\<in>set data. \<exists>c d. map_of s ''name'' = Some (JStr c) \<and> map_of s ''desc'' = Some (JStr d)
              \<and> (lower hint = lower d \<or> lower hint = lower c)"
  from resolve_site_code_loop_found[OF assms(2) this] obtain s c d where
    found: "s \<in> set data" "resolve_site_code_loop hint data = Inr (Some c)"
      "map_of s ''name'' = Some (JStr c)" "map_of s ''desc'' = Some (JStr d)"
      "lower hint = lower d \<or> lower hint = lower c"
    by blast
  from found(2) assms(1) have "resolve_site_code ctl hint = Inr c"
    by (simp add: resolve_site_code_def)
  with found show "\<exists>s\<in>set data. \<exists>c d. resolve_site_code ctl hint = Inr c
              \<and> map_of s ''name'' = Some (JStr c) \<and> map_of s ''desc'' = Some (JStr d)
              \<and> (lower hint = lower d \<or> lower hint = lower c)"
    by blast
next
  assume "\<not> (\<exists>s\<in>set data. \<exists>c d. map_of s ''name'' = Some (JStr c) \<and> map_of s ''desc'' = Some (JStr d)
              \<and> (lower hint = lower d \<or> lower hint = lower c))"
  with assms(2) have
    "\<forall>s\<in>set data. \<exists>c d. map_of s ''name'' = Some (JStr c) \<and> map_of s ''desc'' = Some (JStr d)
              \<and> lower hint \<noteq> lower d \<and> lower hint \<noteq> lower c"
    by fastforce
  from resolve_site_code_loop_not_found[OF this] assms(1)
  show "resolve_site_code ctl hint =
            Inl (ValueError (''Site '' @ quoted hint @ '' not found. Available: ''
                             @ py_repr (JArr (map (\<lambda>s. dict_get s ''desc'') data))))"
    by (simp add: resolve_site_code_def del: py_repr.simps)
qed

text \<open>
  Claim C3. The claim describes the earlier script; the client has no operation that
  resolves a hint, and \<^const>\<open>run_cli\<close>, whose \<^verbatim>\<open>--site\<close> option is documented as
  \<open>Site name or description\<close>, uses the hint as the site code. On the sample installation
  the description \<open>Default\<close> of the site \<open>default\<close> is resolved by the earlier script and
  refused by the command line, which succeeds on the code itself.
\<close>

theorem run_cli_takes_hint_as_site_code:
  "resolve_site_code demo_controller ''Default'' = Inr ''default''
   \<and> run_cli demo_controller demo_env (demo_args\<lparr>site := ''Default''\<rparr>) =
       Inr \<lparr>exit_code = 1, stdout = [''Error: 404 Client Error: Not Found''], exported = None\<rparr>
   \<and> run_cli demo_controller demo_env (demo_args\<lparr>site := ''default''\<rparr>) =
       Inr \<lparr>exit_code = 0,
            stdout = print_table [(''AA:BB:CC:DD:EE:FF'', ''host1''), (''11:22:33:44:55:66'', ''Unknown'')],
            exported = None\<rparr>"
proof (intro conjI)
  show "resolve_site_code demo_controller ''Default'' = Inr ''default''"
    by (simp add: demo_eval resolve_site_code_def subscript_def py_eval)
  show "run_cli demo_controller demo_env (demo_args\<lparr>site := ''Default''\<rparr>) =
       Inr \<lparr>exit_code = 1, stdout = [''Error: 404 Client Error: Not Found''], exported = None\<rparr>"
    by (simp add: demo_eval client_eval ensure_cli_args_def prompt_password_def run_cli_def)
  have "fetch_mac_filter_details demo_controller ''default'' ''Home'' =
      Inr (\<lparr>name = ''Home'',
            mac_filter_list = [JStr ''aa:bb:cc:dd:ee:ff'', JStr ''11:22:33:44:55:66'']\<rparr>,
           [(''AA:BB:CC:DD:EE:FF'', ''host1'')])"
    by (simp add: demo_eval client_eval py_eval)
  moreover have "label_mac_addresses [JStr ''aa:bb:cc:dd:ee:ff'', JStr ''11:22:33:44:55:66'']
      [(''AA:BB:CC:DD:EE:FF'', ''host1'')] =
        Inr [(''AA:BB:CC:DD:EE:FF'', ''host1''), (''11:22:33:44:55:66'', ''Unknown'')]"
    by (simp add: py_eval)
  ultimately show "run_cli demo_controller demo_env (demo_args\<lparr>site := ''default''\<rparr>) =
       Inr \<lparr>exit_code = 0,
            stdout = print_table [(''AA:BB:CC:DD:EE:FF'', ''host1''), (''11:22:33:44:55:66'', ''Unknown'')],
            exported = None\<rparr>"
    by (simp add: run_cli_def ensure_cli_args_def prompt_password_def login_def
          demo_controller_def demo_env_def demo_args_def)
qed

section \<open>The tests of the repository\<close>

text \<open>
  The three tests under \<^verbatim>\<open>tests/\<close>, evaluated on the model:
  \<^verbatim>\<open>test_label_mac_addresses_resolves_known_devices\<close>,
  \<^verbatim>\<open>test_filter_entries_returns_all_for_empty_term\<close> and
  \<^verbatim>\<open>test_filter_entries_matches_mac_and_name_case_insensitive\<close>.
\<close>

lemma test_label_mac_addresses_resolves_known_devices:
  "label_mac_addresses
     [JStr ''aa:bb:cc:dd:ee:ff'', JStr ''11:22:33:44:55:66'', JStr ''77:88:99:aa:bb:cc'']
     [(''AA:BB:CC:DD:EE:FF'', ''Laptop''), (upper ''11:22:33:44:55:66'', ''Tablet'')] =
   Inr [(''AA:BB:CC:DD:EE:FF'', ''Laptop''),
        (upper ''11:22:33:44:55:66'', ''Tablet''),
        (''77:88:99:AA:BB:CC'', ''Unknown'')]"
  by (simp add: py_eval)

lemma test_filter_entries_returns_all_for_empty_term:
  "filter_entries [(''AA:BB'', ''Living Room''), (''CC:DD'', ''Office'')] [] =
     [(''AA:BB'', ''Living Room''), (''CC:DD'', ''Office'')]"
  by (simp add: filter_entries_def)

lemma test_filter_entries_matches_mac_and_name_case_insensitive:
  "filter_entries [(''AA:BB:CC:DD:EE:FF'', ''Printer''), (''11:22:33:44:55:66'', ''Kitchen Camera'')]
     ''printer'' = [(''AA:BB:CC:DD:EE:FF'', ''Printer'')]"
  "filter_entries [(''AA:BB:CC:DD:EE:FF'', ''Printer''), (''11:22:33:44:55:66'', ''Kitchen Camera'')]
     ''22:33'' = [(''11:22:33:44:55:66'', ''Kitchen Camera'')]"
  by (simp_all add: filter_entries_def py_eval)

end
